theory Spec2Isabelle
  imports Complex_Main
begin

section \<open>Data model\<close>

text \<open>
  The route handlers of the inventory backend are embedded as functions over an explicit
  store \<open>db\<close>. Every handler returns its response together with the store it leaves
  behind, so a failed request visibly returns the store it was given.

  Identifiers are strings, as in the source. The store takes every write except where
  \<open>stockWriteFails\<close> says otherwise: unique and foreign keys of the schema are not
  modelled, nor is the width of its integer columns.
\<close>

text \<open>
  A number of the runtime is an IEEE double: not a number, an infinity, or a finite
  double, which \<open>Fin\<close> holds as the decimal the runtime prints for it (so the literal
  \<open>0.0825\<close> is \<open>Fin 0.0825\<close>); negative zero is not told from zero. A field of a parsed
  request body is \<open>undefined\<close> when the key is absent, or \<open>null\<close>, a boolean, a number,
  a string, or an array or object, of which only the text that \<open>ToString\<close> gives is kept.
\<close>

datatype jsnum = NaN | PosInf | NegInf | Fin real

datatype json = JUndefined | JNull | JBool bool | JNum jsnum | JStr string | JObject string

type_synonym id = string
type_synonym time = nat

datatype PurchaseOrderStatus = DRAFT | PO_PENDING | ORDERED | PARTIAL | RECEIVED | PO_CANCELLED

datatype OrderStatus =
  PENDING | CONFIRMED | PROCESSING | SHIPPED | DELIVERED | CANCELLED | REFUNDED

text \<open>
  The handlers answer with an HTTP status and a message; the error value keeps the message
  (or the states it names) under the class of the error: 400 on a bad field is
  \<open>ValidationError\<close>, 404 is \<open>NotFoundError\<close>, 400 on a status that forbids the operation is
  \<open>InvalidStateError\<close> or \<open>InvalidTransitionError\<close>, and an exception that reaches the
  router is \<open>InternalServerError\<close>.
\<close>

datatype error =
    ValidationError string
  | NotFoundError string
  | InvalidStateError PurchaseOrderStatus
  | InvalidTransitionError OrderStatus OrderStatus
  | InternalServerError

text \<open>
  The quantities of the stock ledger and of purchase order items are integers. The unit
  price of a product is held as the number \<open>Number(product.unitPrice)\<close> reads; the
  quantity and the amounts of a sales order and of its items are held as the numbers the
  handler passes to the store: the types of the columns are not among the sources, and
  what the store makes of these numbers is not modelled.
\<close>

record Product =
  p_unitPrice :: jsnum
  p_isTaxable :: bool

record Customer =
  c_taxExempt :: bool

record StockItem =
  si_id :: id
  si_productId :: id
  si_warehouseId :: id
  si_quantity :: int
  si_reservedQty :: int
  si_availableQty :: int
  si_lastCountAt :: "time option"

datatype AuditAction = CREATE | UPDATE | DELETE

text \<open>The \<open>changes\<close> object that \<open>updateStock\<close> stores in its audit entry.\<close>

record StockChanges =
  ch_productId :: id
  ch_warehouseId :: id
  ch_before :: "(int \<times> int) option"
  ch_after :: "int \<times> int"
  ch_adjustment :: json
  ch_isCount :: bool

record AuditLog =
  al_userId :: id
  al_action :: AuditAction
  al_entityType :: string
  al_entityId :: id
  al_changes :: StockChanges

record PurchaseOrderItem =
  poi_id :: id
  poi_purchaseOrderId :: id
  poi_productId :: id
  poi_quantity :: int
  poi_unitPrice :: real
  poi_totalPrice :: real
  poi_receivedQty :: int

record PurchaseOrder =
  po_orderNumber :: string
  po_supplierId :: id
  po_status :: PurchaseOrderStatus
  po_subtotal :: real
  po_taxAmount :: real
  po_shippingAmount :: real
  po_totalAmount :: real
  po_receivedAt :: "time option"

record OrderItem =
  oi_orderId :: id
  oi_productId :: id
  oi_quantity :: jsnum
  oi_unitPrice :: jsnum
  oi_discount :: jsnum
  oi_taxAmount :: jsnum
  oi_totalPrice :: jsnum

record Order =
  o_orderNumber :: string
  o_customerId :: id
  o_status :: OrderStatus
  o_subtotal :: jsnum
  o_taxAmount :: jsnum
  o_discountAmount :: jsnum
  o_shippingAmount :: jsnum
  o_totalAmount :: jsnum
  o_shippedAt :: "time option"
  o_deliveredAt :: "time option"

text \<open>
  The store. Tables read by unique key are maps; the two item tables are lists, because
  the handlers filter them by their order.
\<close>

record db =
  products :: "id \<rightharpoonup> Product"
  warehouses :: "id set"
  suppliers :: "id set"
  customers :: "id \<rightharpoonup> Customer"
  users :: "string \<rightharpoonup> id"
  stockItems :: "id \<times> id \<rightharpoonup> StockItem"
  auditLogs :: "AuditLog list"
  purchaseOrders :: "id \<rightharpoonup> PurchaseOrder"
  purchaseOrderItems :: "PurchaseOrderItem list"
  orders :: "id \<rightharpoonup> Order"
  orderItems :: "OrderItem list"

text \<open>
  What a request takes from outside the handler: the clock (\<open>new Date()\<close>), the
  identifiers the store generates for new rows, the part of a generated order number that
  depends on the date and on \<open>Math.random\<close> (YYMM-XXXXXX), and whether the store rejects a
  write to the stock row of a product and a warehouse (the exception that
  \<open>bulkUpdateStock\<close> catches per item and that aborts a transaction elsewhere).

  It also takes from the runtime what this theory does not compute: \<open>parseInt\<close> and
  \<open>parseFloat\<close> of a text, \<open>parseInt\<close> of a number that prints in exponent notation, and
  the sum, difference and product of two doubles where they are not plainly exact. No
  statement below assumes anything of these six functions.
\<close>

record env =
  now :: time
  newId :: "nat \<Rightarrow> id"
  orderNumberSuffix :: string
  stockWriteFails :: "id \<Rightarrow> id \<Rightarrow> bool"
  parseIntText :: "string \<Rightarrow> jsnum"
  parseIntExponent :: "real \<Rightarrow> jsnum"
  parseFloatText :: "string \<Rightarrow> jsnum"
  addDouble :: "jsnum \<Rightarrow> jsnum \<Rightarrow> jsnum"
  subDouble :: "jsnum \<Rightarrow> jsnum \<Rightarrow> jsnum"
  mulDouble :: "jsnum \<Rightarrow> jsnum \<Rightarrow> jsnum"

text \<open>
  \<open>generateOrderNumber\<close> of the purchase order routes and of the sales order routes.
\<close>

definition generatePurchaseOrderNumber :: "env \<Rightarrow> string" where
  "generatePurchaseOrderNumber e = ''PO-'' @ orderNumberSuffix e"

definition generateOrderNumber :: "env \<Rightarrow> string" where
  "generateOrderNumber e = ''SO-'' @ orderNumberSuffix e"

section \<open>Numbers of the runtime\<close>

text \<open>
  \<open>parseInt\<close> reads its argument as text. A number prints in plain notation when it is 0
  or at least 0.000001 and below 1e21 in magnitude, and the integer read from that text
  is the number cut off at the point; any other finite number prints in exponent notation
  (1e21 as \<open>1e+21\<close>, read as 1). \<open>undefined\<close>, \<open>null\<close>, booleans and the infinities
  print as words, read as not a number.
\<close>

definition jstrunc :: "real \<Rightarrow> int" where
  "jstrunc r = (if 0 \<le> r then \<lfloor>r\<rfloor> else - \<lfloor>- r\<rfloor>)"

definition parseInt :: "env \<Rightarrow> json \<Rightarrow> jsnum" where
  "parseInt e v =
     (case v of
        JNum x \<Rightarrow>
          (case x of
             Fin r \<Rightarrow>
               if r = 0 \<or> (1 / 1000000 \<le> \<bar>r\<bar> \<and> \<bar>r\<bar> < 10 ^ 21)
               then Fin (of_int (jstrunc r))
               else parseIntExponent e r
           | _ \<Rightarrow> NaN)
      | JStr t \<Rightarrow> parseIntText e t
      | JObject t \<Rightarrow> parseIntText e t
      | _ \<Rightarrow> NaN)"

text \<open>\<open>parseFloat\<close> of a number reads back the number that was printed.\<close>

definition parseFloat :: "env \<Rightarrow> json \<Rightarrow> jsnum" where
  "parseFloat e v =
     (case v of
        JNum x \<Rightarrow> x
      | JStr t \<Rightarrow> parseFloatText e t
      | JObject t \<Rightarrow> parseFloatText e t
      | _ \<Rightarrow> NaN)"

text \<open>
  Truthiness of a field (\<open>!item.quantity\<close>), \<open>x || 0\<close> on a number, \<open>Math.max(0, x)\<close> and
  \<open>x > y\<close>, which is false as soon as one side is not a number.
\<close>

definition jtruthy :: "json \<Rightarrow> bool" where
  "jtruthy v =
     (case v of
        JUndefined \<Rightarrow> False
      | JNull \<Rightarrow> False
      | JBool b \<Rightarrow> b
      | JNum x \<Rightarrow> x \<noteq> NaN \<and> x \<noteq> Fin 0
      | JStr t \<Rightarrow> t \<noteq> []
      | JObject t \<Rightarrow> True)"

definition orZero :: "jsnum \<Rightarrow> jsnum" where
  "orZero x = (if x = NaN \<or> x = Fin 0 then Fin 0 else x)"

definition jsmax0 :: "jsnum \<Rightarrow> jsnum" where
  "jsmax0 x =
     (case x of
        NaN \<Rightarrow> NaN
      | PosInf \<Rightarrow> PosInf
      | NegInf \<Rightarrow> Fin 0
      | Fin r \<Rightarrow> Fin (max 0 r))"

fun jsgt :: "jsnum \<Rightarrow> jsnum \<Rightarrow> bool" where
  "jsgt NaN y = False"
| "jsgt x NaN = False"
| "jsgt x PosInf = False"
| "jsgt PosInf y = True"
| "jsgt NegInf y = False"
| "jsgt x NegInf = True"
| "jsgt (Fin a) (Fin b) = (a > b)"

text \<open>
  The sum, the difference and the product of two doubles are exact when both and the
  result are integers of magnitude at most 2^53; everything else is the runtime's.
\<close>

definition safeInt :: "real \<Rightarrow> bool" where
  "safeInt r = (of_int \<lfloor>r\<rfloor> = r \<and> \<bar>r\<bar> \<le> 9007199254740992)"

definition jsadd :: "env \<Rightarrow> jsnum \<Rightarrow> jsnum \<Rightarrow> jsnum" where
  "jsadd e x y =
     (case (x, y) of
        (Fin a, Fin b) \<Rightarrow>
          if safeInt a \<and> safeInt b \<and> safeInt (a + b) then Fin (a + b) else addDouble e x y
      | _ \<Rightarrow> addDouble e x y)"

definition jssub :: "env \<Rightarrow> jsnum \<Rightarrow> jsnum \<Rightarrow> jsnum" where
  "jssub e x y =
     (case (x, y) of
        (Fin a, Fin b) \<Rightarrow>
          if safeInt a \<and> safeInt b \<and> safeInt (a - b) then Fin (a - b) else subDouble e x y
      | _ \<Rightarrow> subDouble e x y)"

definition jsmul :: "env \<Rightarrow> jsnum \<Rightarrow> jsnum \<Rightarrow> jsnum" where
  "jsmul e x y =
     (case (x, y) of
        (Fin a, Fin b) \<Rightarrow>
          if safeInt a \<and> safeInt b \<and> safeInt (a * b) then Fin (a * b) else mulDouble e x y
      | _ \<Rightarrow> mulDouble e x y)"

text \<open>
  A number written to an integer column reaches the store as it prints: the store takes
  an integer and throws on anything else.
\<close>

definition toInt :: "jsnum \<Rightarrow> int option" where
  "toInt x =
     (case x of
        Fin r \<Rightarrow> if of_int \<lfloor>r\<rfloor> = r then Some \<lfloor>r\<rfloor> else None
      | _ \<Rightarrow> None)"

section \<open>Stock ledger\<close>

text \<open>
  Modelled from the spec: the Prisma schema is not among the sources, so the default of
  \<open>reservedQty\<close> for a row created without it is taken from the zero record of the spec
  and of \<open>getStockItem\<close> (\<open>reservedQty: 0\<close>).
\<close>

definition default_reservedQty :: int where
  "default_reservedQty = 0"

text \<open>
  \<open>prisma.stockItem.upsert\<close> on the unique pair (productId, warehouseId): the \<open>update\<close>
  argument changes the existing row, the \<open>create\<close> argument is the new row. \<open>None\<close> is the
  exception of a rejected write.
\<close>

definition stockItem_upsert ::
  "env \<Rightarrow> id \<Rightarrow> id \<Rightarrow> (StockItem \<Rightarrow> StockItem) \<Rightarrow> StockItem \<Rightarrow> db \<Rightarrow> (StockItem \<times> db) option"
where
  "stockItem_upsert e productId warehouseId upd cre d =
     (if stockWriteFails e productId warehouseId then None
      else
        let row = (case stockItems d (productId, warehouseId) of
                     Some existing \<Rightarrow> upd existing
                   | None \<Rightarrow> cre)
        in Some (row, d\<lparr>stockItems := (stockItems d)((productId, warehouseId) \<mapsto> row)\<rparr>))"

record StockBody =
  sb_adjustment :: json
  sb_quantity :: json
  sb_reservedQty :: json
  sb_isCount :: bool

text \<open>
  The branch of \<open>updateStock\<close> that determines the new quantities: relative when
  \<open>adjustment\<close> is not \<open>undefined\<close>, else absolute when \<open>quantity\<close> is not \<open>undefined\<close>, else
  no result (the handler answers 400). \<open>existing?.quantity || 0\<close> reads 0 from a missing
  row, and an integer of the store is read as the number of the same value.
\<close>

definition newQuantities :: "env \<Rightarrow> StockItem option \<Rightarrow> StockBody \<Rightarrow> (jsnum \<times> jsnum) option" where
  "newQuantities e existing body =
     (if sb_adjustment body \<noteq> JUndefined then
        let currentQty = (case existing of
                            None \<Rightarrow> Fin 0
                          | Some x \<Rightarrow> orZero (Fin (of_int (si_quantity x))))
        in Some (jsmax0 (jsadd e currentQty (parseInt e (sb_adjustment body))),
                 (case existing of
                    None \<Rightarrow> Fin 0
                  | Some x \<Rightarrow> orZero (Fin (of_int (si_reservedQty x)))))
      else if sb_quantity body \<noteq> JUndefined then
        Some (jsmax0 (parseInt e (sb_quantity body)),
              (if sb_reservedQty body \<noteq> JUndefined then parseInt e (sb_reservedQty body)
               else (case existing of
                       None \<Rightarrow> Fin 0
                     | Some x \<Rightarrow> orZero (Fin (of_int (si_reservedQty x))))))
      else None)"

definition stockAudit ::
  "id \<Rightarrow> StockItem option \<Rightarrow> StockItem \<Rightarrow> id \<Rightarrow> id \<Rightarrow> int \<times> int \<Rightarrow> StockBody \<Rightarrow> AuditLog"
where
  "stockAudit userRowId existing stockItem productId warehouseId after body =
     \<lparr> al_userId = userRowId,
       al_action = (case existing of Some _ \<Rightarrow> UPDATE | None \<Rightarrow> CREATE),
       al_entityType = ''StockItem'',
       al_entityId = si_id stockItem,
       al_changes =
         \<lparr> ch_productId = productId,
           ch_warehouseId = warehouseId,
           ch_before = (case existing of
                          Some x \<Rightarrow> Some (si_quantity x, si_reservedQty x)
                        | None \<Rightarrow> None),
           ch_after = after,
           ch_adjustment = sb_adjustment body,
           ch_isCount = sb_isCount body \<rparr> \<rparr>"

text \<open>
  \<open>updateStock\<close>: PUT /api/stock/:productId/:warehouseId. The three numbers of the upsert
  go to integer columns.
\<close>

definition updateStock ::
  "env \<Rightarrow> string \<Rightarrow> id \<Rightarrow> id \<Rightarrow> StockBody option \<Rightarrow> db \<Rightarrow> (error + StockItem) \<times> db"
where
  "updateStock e userId productId warehouseId event_body d =
     (if productId = [] \<or> warehouseId = [] then
        (Inl (ValidationError ''Product ID and Warehouse ID are required''), d)
      else case event_body of
        None \<Rightarrow> (Inl (ValidationError ''Request body is required''), d)
      | Some body \<Rightarrow>
          if products d productId = None then (Inl (NotFoundError ''Product not found''), d)
          else if warehouseId \<notin> warehouses d then
            (Inl (NotFoundError ''Warehouse not found''), d)
          else
            let existing = stockItems d (productId, warehouseId) in
            case newQuantities e existing body of
              None \<Rightarrow> (Inl (ValidationError ''quantity or adjustment is required''), d)
            | Some (newQuantity, newReservedQty) \<Rightarrow>
                if jsgt newReservedQty newQuantity then
                  (Inl (ValidationError ''Reserved quantity cannot exceed total quantity''), d)
                else
                  case (toInt newQuantity, toInt newReservedQty,
                        toInt (jssub e newQuantity newReservedQty)) of
                    (Some quantity, Some reservedQty, Some availableQty) \<Rightarrow>
                      (case stockItem_upsert e productId warehouseId
                              (\<lambda>x. x\<lparr> si_quantity := quantity,
                                      si_reservedQty := reservedQty,
                                      si_availableQty := availableQty,
                                      si_lastCountAt :=
                                        (if sb_isCount body then Some (now e)
                                         else si_lastCountAt x) \<rparr>)
                              \<lparr> si_id = newId e 0,
                                si_productId = productId,
                                si_warehouseId = warehouseId,
                                si_quantity = quantity,
                                si_reservedQty = reservedQty,
                                si_availableQty = availableQty,
                                si_lastCountAt =
                                  (if sb_isCount body then Some (now e) else None) \<rparr>
                              d of
                         None \<Rightarrow> (Inl InternalServerError, d)
                       | Some (stockItem, d1) \<Rightarrow>
                           (Inr stockItem,
                            (case users d1 userId of
                               Some userRowId \<Rightarrow>
                                 d1\<lparr>auditLogs := auditLogs d1 @
                                      [stockAudit userRowId existing stockItem productId
                                         warehouseId (quantity, reservedQty) body]\<rparr>
                             | None \<Rightarrow> d1)))
                  | _ \<Rightarrow> (Inl InternalServerError, d))"

text \<open>
  \<open>bulkUpdateStock\<close>: POST /api/stock/bulk. A string field is truthy when it is present
  and not empty. \<open>parseInt(x) || 0\<close> reads 0 from an absent field.
\<close>

definition truthy :: "string option \<Rightarrow> bool" where
  "truthy s = (case s of None \<Rightarrow> False | Some x \<Rightarrow> x \<noteq> [])"

record BulkItem =
  bi_productId :: "id option"
  bi_warehouseId :: "id option"
  bi_quantity :: "int option"
  bi_reservedQty :: "int option"

record BulkResult =
  br_productId :: "id option"
  br_warehouseId :: "id option"
  br_success :: bool
  br_error :: "string option"

record BulkBody =
  bulk_items :: "BulkItem list option"

text \<open>
  One turn of the loop over \<open>body.items\<close>, on the results collected so far and the store
  inside the transaction. The text of a caught exception is not modelled.
\<close>

definition bulkUpdateItem :: "env \<Rightarrow> BulkItem \<Rightarrow> BulkResult list \<times> db \<Rightarrow> BulkResult list \<times> db" where
  "bulkUpdateItem e item acc =
     (case acc of (results, d) \<Rightarrow>
        if truthy (bi_productId item) \<and> truthy (bi_warehouseId item) then
          (case (bi_productId item, bi_warehouseId item) of
             (Some productId, Some warehouseId) \<Rightarrow>
               let quantity = (case bi_quantity item of None \<Rightarrow> 0 | Some q \<Rightarrow> q);
                   reservedQty = (case bi_reservedQty item of None \<Rightarrow> 0 | Some r \<Rightarrow> r)
               in (case stockItem_upsert e productId warehouseId
                         (\<lambda>x. x\<lparr> si_quantity := quantity,
                                 si_reservedQty := reservedQty,
                                 si_availableQty := quantity - reservedQty,
                                 si_lastCountAt := Some (now e) \<rparr>)
                         \<lparr> si_id = newId e (length results),
                           si_productId = productId,
                           si_warehouseId = warehouseId,
                           si_quantity = quantity,
                           si_reservedQty = reservedQty,
                           si_availableQty = quantity - reservedQty,
                           si_lastCountAt = Some (now e) \<rparr>
                         d of
                     Some (stockItem, d1) \<Rightarrow>
                       (results @
                          [\<lparr> br_productId = bi_productId item,
                             br_warehouseId = bi_warehouseId item,
                             br_success = True,
                             br_error = None \<rparr>], d1)
                   | None \<Rightarrow>
                       (results @
                          [\<lparr> br_productId = bi_productId item,
                             br_warehouseId = bi_warehouseId item,
                             br_success = False,
                             br_error = Some ''Error'' \<rparr>], d))
           | _ \<Rightarrow> (results, d))
        else
          (results @
             [\<lparr> br_productId = bi_productId item,
                br_warehouseId = bi_warehouseId item,
                br_success = False,
                br_error = Some ''productId and warehouseId are required'' \<rparr>], d))"

definition bulkUpdateStock ::
  "env \<Rightarrow> BulkBody option \<Rightarrow> db \<Rightarrow> (error + BulkResult list) \<times> db"
where
  "bulkUpdateStock e event_body d =
     (case event_body of
        None \<Rightarrow> (Inl (ValidationError ''Request body is required''), d)
      | Some body \<Rightarrow>
          (case bulk_items body of
             None \<Rightarrow> (Inl (ValidationError ''items array is required''), d)
           | Some items \<Rightarrow>
               (case foldl (\<lambda>acc item. bulkUpdateItem e item acc) ([], d) items of
                  (results, d1) \<Rightarrow> (Inr results, d1))))"

section \<open>Purchase order workflow\<close>

text \<open>
  Modelled from the spec: the Prisma schema is not among the sources, so the status of a
  new purchase order and the \<open>receivedQty\<close> of a new item are the defaults the spec names
  (DRAFT; nothing received).
\<close>

definition default_po_status :: PurchaseOrderStatus where
  "default_po_status = DRAFT"

definition default_receivedQty :: int where
  "default_receivedQty = 0"

record ReceivedLine =
  rl_itemId :: id
  rl_receivedQty :: int

record ReceiveBody =
  rb_warehouseId :: "id option"
  rb_items :: "ReceivedLine list option"

text \<open>
  One turn of the loop over \<open>receivedItems\<close>. \<open>items\<close> is \<open>order.items\<close> as loaded before
  the transaction; the loop reads \<open>receivedQty\<close> from it and writes to the store. \<open>n\<close>
  counts the turns and only names the row a first receipt creates. \<open>None\<close> is the
  exception that aborts the transaction.
\<close>

definition receiveLine ::
  "env \<Rightarrow> PurchaseOrderItem list \<Rightarrow> id \<Rightarrow> nat \<Rightarrow> ReceivedLine \<Rightarrow> db \<Rightarrow> db option"
where
  "receiveLine e items warehouseId n received d =
     (case find (\<lambda>i. poi_id i = rl_itemId received) items of
        None \<Rightarrow> Some d
      | Some item \<Rightarrow>
          let qty = min (rl_receivedQty received) (poi_quantity item - poi_receivedQty item) in
          if qty \<le> 0 then Some d
          else
            let d1 = d\<lparr>purchaseOrderItems :=
                        map (\<lambda>i. if poi_id i = poi_id item
                                  then i\<lparr>poi_receivedQty := poi_receivedQty item + qty\<rparr>
                                  else i)
                            (purchaseOrderItems d)\<rparr>
            in map_option snd
                 (stockItem_upsert e (poi_productId item) warehouseId
                    (\<lambda>x. x\<lparr> si_quantity := si_quantity x + qty,
                            si_availableQty := si_availableQty x + qty \<rparr>)
                    \<lparr> si_id = newId e n,
                      si_productId = poi_productId item,
                      si_warehouseId = warehouseId,
                      si_quantity = qty,
                      si_reservedQty = default_reservedQty,
                      si_availableQty = qty,
                      si_lastCountAt = None \<rparr>
                    d1))"

fun receiveLines ::
  "env \<Rightarrow> PurchaseOrderItem list \<Rightarrow> id \<Rightarrow> nat \<Rightarrow> ReceivedLine list \<Rightarrow> db \<Rightarrow> db option"
where
  "receiveLines e items warehouseId n [] d = Some d"
| "receiveLines e items warehouseId n (received # rest) d =
     (case receiveLine e items warehouseId n received d of
        None \<Rightarrow> None
      | Some d1 \<Rightarrow> receiveLines e items warehouseId (Suc n) rest d1)"

definition itemsOf :: "id \<Rightarrow> db \<Rightarrow> PurchaseOrderItem list" where
  "itemsOf orderId d = filter (\<lambda>i. poi_purchaseOrderId i = orderId) (purchaseOrderItems d)"

text \<open>\<open>receivePurchaseOrder\<close>: POST /api/purchase-orders/:id/receive.\<close>

definition receivePurchaseOrder ::
  "env \<Rightarrow> id \<Rightarrow> ReceiveBody option \<Rightarrow> db \<Rightarrow> (error + PurchaseOrder) \<times> db"
where
  "receivePurchaseOrder e orderId event_body d =
     (if orderId = [] then (Inl (ValidationError ''Purchase Order ID is required''), d)
      else case event_body of
        None \<Rightarrow> (Inl (ValidationError ''Request body is required''), d)
      | Some body \<Rightarrow>
          if truthy (rb_warehouseId body) then
            (case (rb_warehouseId body, purchaseOrders d orderId) of
               (Some warehouseId, Some order) \<Rightarrow>
                 if po_status order = ORDERED \<or> po_status order = PARTIAL then
                   let items = itemsOf orderId d;
                       receivedItems =
                         (case rb_items body of
                            Some lines \<Rightarrow> lines
                          | None \<Rightarrow>
                              map (\<lambda>i. \<lparr> rl_itemId = poi_id i,
                                         rl_receivedQty = poi_quantity i - poi_receivedQty i \<rparr>)
                                  items)
                   in (case receiveLines e items warehouseId 0 receivedItems d of
                         None \<Rightarrow> (Inl InternalServerError, d)
                       | Some d1 \<Rightarrow>
                           let updatedItems = itemsOf orderId d1;
                               allReceived =
                                 list_all (\<lambda>i. poi_receivedQty i \<ge> poi_quantity i) updatedItems;
                               someReceived = list_ex (\<lambda>i. poi_receivedQty i > 0) updatedItems;
                               newStatus =
                                 (if allReceived then RECEIVED
                                  else if someReceived then PARTIAL
                                  else po_status order);
                               updatedOrder =
                                 order\<lparr> po_status := newStatus,
                                        po_receivedAt :=
                                          (if allReceived then Some (now e) else None) \<rparr>
                           in (Inr updatedOrder,
                               d1\<lparr>purchaseOrders := (purchaseOrders d1)(orderId \<mapsto> updatedOrder)\<rparr>))
                 else (Inl (InvalidStateError (po_status order)), d)
             | (_, None) \<Rightarrow> (Inl (NotFoundError ''Purchase Order not found''), d)
             | _ \<Rightarrow> (Inl (ValidationError ''warehouseId is required''), d))
          else (Inl (ValidationError ''warehouseId is required''), d))"

text \<open>
  \<open>createPurchaseOrder\<close>: POST /api/purchase-orders. A number field is falsy when it is
  absent or zero. The loop over \<open>body.items\<close> carries \<open>subtotal\<close> and \<open>itemsData\<close>; the
  nested create gives the items their order and their identifiers.
\<close>

record POItemInput =
  pi_productId :: "id option"
  pi_quantity :: "int option"
  pi_unitPrice :: "real option"

record POBody =
  pb_supplierId :: "id option"
  pb_orderNumber :: "string option"
  pb_items :: "POItemInput list option"
  pb_taxAmount :: "real option"
  pb_shippingAmount :: "real option"

fun purchaseItems ::
  "env \<Rightarrow> id \<Rightarrow> POItemInput list \<Rightarrow> real \<times> PurchaseOrderItem list \<Rightarrow>
   error + real \<times> PurchaseOrderItem list"
where
  "purchaseItems e orderId [] acc = Inr acc"
| "purchaseItems e orderId (item # rest) (subtotal, itemsData) =
     (case (pi_productId item, pi_quantity item, pi_unitPrice item) of
        (Some productId, Some quantity, Some unitPrice) \<Rightarrow>
          if productId = [] \<or> quantity = 0 \<or> unitPrice = 0 then
            Inl (ValidationError ''Each item requires productId, quantity, and unitPrice'')
          else
            let totalPrice = of_int quantity * unitPrice in
            purchaseItems e orderId rest
              (subtotal + totalPrice,
               itemsData @
                 [\<lparr> poi_id = newId e (Suc (length itemsData)),
                    poi_purchaseOrderId = orderId,
                    poi_productId = productId,
                    poi_quantity = quantity,
                    poi_unitPrice = unitPrice,
                    poi_totalPrice = totalPrice,
                    poi_receivedQty = default_receivedQty \<rparr>])
      | _ \<Rightarrow> Inl (ValidationError ''Each item requires productId, quantity, and unitPrice''))"

definition createPurchaseOrder ::
  "env \<Rightarrow> POBody option \<Rightarrow> db \<Rightarrow> (error + id \<times> PurchaseOrder) \<times> db"
where
  "createPurchaseOrder e event_body d =
     (case event_body of
        None \<Rightarrow> (Inl (ValidationError ''Request body is required''), d)
      | Some body \<Rightarrow>
          if truthy (pb_supplierId body) then
            (case pb_supplierId body of
               Some supplierId \<Rightarrow>
                 if supplierId \<in> suppliers d then
                   let orderNumber =
                         (if truthy (pb_orderNumber body)
                          then (case pb_orderNumber body of Some n \<Rightarrow> n | None \<Rightarrow> [])
                          else generatePurchaseOrderNumber e)
                   in (case purchaseItems e (newId e 0)
                              (case pb_items body of Some items \<Rightarrow> items | None \<Rightarrow> [])
                              (0, []) of
                         Inl err \<Rightarrow> (Inl err, d)
                       | Inr (subtotal, itemsData) \<Rightarrow>
                           let taxAmount = (case pb_taxAmount body of None \<Rightarrow> 0 | Some t \<Rightarrow> t);
                               shippingAmount =
                                 (case pb_shippingAmount body of None \<Rightarrow> 0 | Some s \<Rightarrow> s);
                               totalAmount = subtotal + taxAmount + shippingAmount;
                               order =
                                 \<lparr> po_orderNumber = orderNumber,
                                   po_supplierId = supplierId,
                                   po_status = default_po_status,
                                   po_subtotal = subtotal,
                                   po_taxAmount = taxAmount,
                                   po_shippingAmount = shippingAmount,
                                   po_totalAmount = totalAmount,
                                   po_receivedAt = None \<rparr>
                           in (Inr (newId e 0, order),
                               d\<lparr> purchaseOrders := (purchaseOrders d)(newId e 0 \<mapsto> order),
                                  purchaseOrderItems := purchaseOrderItems d @ itemsData \<rparr>))
                 else (Inl (NotFoundError ''Supplier not found''), d)
             | None \<Rightarrow> (Inl (ValidationError ''supplierId is required''), d))
          else (Inl (ValidationError ''supplierId is required''), d))"

section \<open>Sales order workflow\<close>

text \<open>
  Modelled from the spec: the Prisma schema is not among the sources, so the status of a
  new sales order is the first state the spec names (PENDING).
\<close>

definition default_order_status :: OrderStatus where
  "default_order_status = PENDING"

record OrderItemInput =
  ii_productId :: "id option"
  ii_quantity :: json
  ii_unitPrice :: json
  ii_discount :: json

record OrderBody =
  ob_customerId :: "id option"
  ob_orderNumber :: "string option"
  ob_items :: "OrderItemInput list option"
  ob_discountAmount :: json
  ob_shippingAmount :: json

definition taxRateOf :: "Product \<Rightarrow> Customer \<Rightarrow> jsnum" where
  "taxRateOf product customer =
     (if p_isTaxable product \<and> \<not> c_taxExempt customer then Fin 0.0825 else Fin 0)"

text \<open>
  The loop of \<open>createOrder\<close> over \<open>body.items\<close>, carrying \<open>subtotal\<close>, \<open>totalTax\<close> and
  \<open>itemsData\<close>; it leaves the handler at the first item that lacks a field or whose product
  is not found. Every \<open>+\<close>, \<open>-\<close> and \<open>*\<close> is the one of doubles, in the order of the source.
\<close>

fun orderLines ::
  "env \<Rightarrow> db \<Rightarrow> Customer \<Rightarrow> id \<Rightarrow> OrderItemInput list \<Rightarrow> jsnum \<times> jsnum \<times> OrderItem list \<Rightarrow>
   error + jsnum \<times> jsnum \<times> OrderItem list"
where
  "orderLines e d customer orderId [] acc = Inr acc"
| "orderLines e d customer orderId (item # rest) (subtotal, totalTax, itemsData) =
     (if truthy (ii_productId item) \<and> jtruthy (ii_quantity item) then
        (case ii_productId item of
           None \<Rightarrow> Inl (ValidationError ''Each item requires productId and quantity'')
         | Some productId \<Rightarrow>
             (case products d productId of
                None \<Rightarrow> Inl (NotFoundError (''Product '' @ productId @ '' not found''))
              | Some product \<Rightarrow>
                  let unitPrice = (if ii_unitPrice item \<noteq> JUndefined
                                   then parseFloat e (ii_unitPrice item)
                                   else p_unitPrice product);
                      discount = orZero (parseFloat e (ii_discount item));
                      quantity = parseInt e (ii_quantity item);
                      lineTotal = jssub e (jsmul e quantity unitPrice) discount;
                      taxRate = taxRateOf product customer;
                      taxAmount = jsmul e lineTotal taxRate
                  in orderLines e d customer orderId rest
                       (jsadd e subtotal lineTotal,
                        jsadd e totalTax taxAmount,
                        itemsData @
                          [\<lparr> oi_orderId = orderId,
                             oi_productId = productId,
                             oi_quantity = quantity,
                             oi_unitPrice = unitPrice,
                             oi_discount = discount,
                             oi_taxAmount = taxAmount,
                             oi_totalPrice = jsadd e lineTotal taxAmount \<rparr>])))
      else Inl (ValidationError ''Each item requires productId and quantity''))"

text \<open>\<open>createOrder\<close>: POST /api/orders.\<close>

definition createOrder ::
  "env \<Rightarrow> OrderBody option \<Rightarrow> db \<Rightarrow> (error + id \<times> Order \<times> OrderItem list) \<times> db"
where
  "createOrder e event_body d =
     (case event_body of
        None \<Rightarrow> (Inl (ValidationError ''Request body is required''), d)
      | Some body \<Rightarrow>
          if truthy (ob_customerId body) then
            (case ob_customerId body of
               Some customerId \<Rightarrow>
                 (case customers d customerId of
                    None \<Rightarrow> (Inl (NotFoundError ''Customer not found''), d)
                  | Some customer \<Rightarrow>
                      let orderNumber =
                            (if truthy (ob_orderNumber body)
                             then (case ob_orderNumber body of Some n \<Rightarrow> n | None \<Rightarrow> [])
                             else generateOrderNumber e)
                      in (case orderLines e d customer (newId e 0)
                                 (case ob_items body of Some items \<Rightarrow> items | None \<Rightarrow> [])
                                 (Fin 0, Fin 0, []) of
                            Inl err \<Rightarrow> (Inl err, d)
                          | Inr (subtotal, totalTax, itemsData) \<Rightarrow>
                              let discountAmount =
                                    orZero (parseFloat e (ob_discountAmount body));
                                  shippingAmount =
                                    orZero (parseFloat e (ob_shippingAmount body));
                                  totalAmount =
                                    jsadd e (jsadd e (jssub e subtotal discountAmount) totalTax)
                                      shippingAmount;
                                  order =
                                    \<lparr> o_orderNumber = orderNumber,
                                      o_customerId = customerId,
                                      o_status = default_order_status,
                                      o_subtotal = subtotal,
                                      o_taxAmount = totalTax,
                                      o_discountAmount = discountAmount,
                                      o_shippingAmount = shippingAmount,
                                      o_totalAmount = totalAmount,
                                      o_shippedAt = None,
                                      o_deliveredAt = None \<rparr>
                              in (Inr (newId e 0, order, itemsData),
                                  d\<lparr> orders := (orders d)(newId e 0 \<mapsto> order),
                                     orderItems := orderItems d @ itemsData \<rparr>)))
             | None \<Rightarrow> (Inl (ValidationError ''customerId is required''), d))
          else (Inl (ValidationError ''customerId is required''), d))"

text \<open>
  \<open>updateOrder\<close>: PUT /api/orders/:id. Of the body, the model keeps the requested status
  and whether \<open>items\<close> is given; the text fields it copies to the order are left out.
\<close>

fun validTransitions :: "OrderStatus \<Rightarrow> OrderStatus list" where
  "validTransitions PENDING = [CONFIRMED, CANCELLED]"
| "validTransitions CONFIRMED = [PROCESSING, CANCELLED]"
| "validTransitions PROCESSING = [SHIPPED, CANCELLED]"
| "validTransitions SHIPPED = [DELIVERED]"
| "validTransitions DELIVERED = [REFUNDED]"
| "validTransitions CANCELLED = []"
| "validTransitions REFUNDED = []"

record OrderUpdateBody =
  ub_status :: "OrderStatus option"
  ub_items :: "OrderItemInput list option"

definition transitionRejected :: "OrderStatus \<Rightarrow> OrderStatus option \<Rightarrow> bool" where
  "transitionRejected existingStatus requested =
     (case requested of
        None \<Rightarrow> False
      | Some s \<Rightarrow> s \<noteq> existingStatus \<and> s \<notin> set (validTransitions existingStatus))"

definition updateOrder ::
  "env \<Rightarrow> id \<Rightarrow> OrderUpdateBody option \<Rightarrow> db \<Rightarrow> (error + Order) \<times> db"
where
  "updateOrder e orderId event_body d =
     (if orderId = [] then (Inl (ValidationError ''Order ID is required''), d)
      else case event_body of
        None \<Rightarrow> (Inl (ValidationError ''Request body is required''), d)
      | Some body \<Rightarrow>
          (case orders d orderId of
             None \<Rightarrow> (Inl (NotFoundError ''Order not found''), d)
           | Some existing \<Rightarrow>
               if transitionRejected (o_status existing) (ub_status body) then
                 (Inl (InvalidTransitionError (o_status existing)
                         (case ub_status body of Some s \<Rightarrow> s | None \<Rightarrow> o_status existing)), d)
               else if ub_items body \<noteq> None \<and> o_status existing = PENDING then
                 (Inl (ValidationError ''Item updates not supported via this endpoint''), d)
               else
                 let order =
                       (case ub_status body of
                          None \<Rightarrow> existing
                        | Some s \<Rightarrow>
                            existing\<lparr> o_status := s,
                                       o_shippedAt :=
                                         (if s = SHIPPED then Some (now e) else o_shippedAt existing),
                                       o_deliveredAt :=
                                         (if s = DELIVERED then Some (now e)
                                          else o_deliveredAt existing) \<rparr>)
                 in (Inr order, d\<lparr>orders := (orders d)(orderId \<mapsto> order)\<rparr>)))"

section \<open>Properties stated over the model\<close>

text \<open>The invariant of a stock row that the spec names.\<close>

definition stock_invariant :: "StockItem \<Rightarrow> bool" where
  "stock_invariant x =
     (0 \<le> si_reservedQty x \<and> si_reservedQty x \<le> si_quantity x \<and>
      si_availableQty x = si_quantity x - si_reservedQty x)"

text \<open>An item whose received quantity has reached the ordered quantity.\<close>

definition fullyReceived :: "PurchaseOrderItem \<Rightarrow> bool" where
  "fullyReceived i = (poi_receivedQty i \<ge> poi_quantity i)"

text \<open>
  A request line that names an item of the loaded order which is already fully received.
\<close>

definition namesFullyReceived :: "PurchaseOrderItem list \<Rightarrow> ReceivedLine \<Rightarrow> bool" where
  "namesFullyReceived items received =
     (case find (\<lambda>i. poi_id i = rl_itemId received) items of
        None \<Rightarrow> False
      | Some item \<Rightarrow> fullyReceived item)"

text \<open>The transition table of sales orders, pair by pair as the spec lists it.\<close>

definition transitionTable :: "(OrderStatus \<times> OrderStatus) set" where
  "transitionTable =
     {(PENDING, CONFIRMED), (PENDING, CANCELLED),
      (CONFIRMED, PROCESSING), (CONFIRMED, CANCELLED),
      (PROCESSING, SHIPPED), (PROCESSING, CANCELLED),
      (SHIPPED, DELIVERED),
      (DELIVERED, REFUNDED)}"

text \<open>
  The line total of a stored order item, which the item itself does not store, and the
  relation between a requested item and the stored item priced from it.
\<close>

definition lineTotal :: "env \<Rightarrow> OrderItem \<Rightarrow> jsnum" where
  "lineTotal e l = jssub e (jsmul e (oi_quantity l) (oi_unitPrice l)) (oi_discount l)"

definition pricedFrom :: "env \<Rightarrow> db \<Rightarrow> Customer \<Rightarrow> OrderItemInput \<Rightarrow> OrderItem \<Rightarrow> bool" where
  "pricedFrom e d customer item l =
     (case products d (oi_productId l) of
        None \<Rightarrow> False
      | Some product \<Rightarrow>
          ii_productId item = Some (oi_productId l) \<and>
          oi_quantity l = parseInt e (ii_quantity item) \<and>
          oi_unitPrice l =
            (if ii_unitPrice item = JUndefined then p_unitPrice product
             else parseFloat e (ii_unitPrice item)) \<and>
          oi_discount l = orZero (parseFloat e (ii_discount item)) \<and>
          oi_taxAmount l =
            jsmul e (lineTotal e l)
              (if p_isTaxable product \<and> \<not> c_taxExempt customer then Fin 0.0825 else Fin 0) \<and>
          oi_totalPrice l = jsadd e (lineTotal e l) (oi_taxAmount l))"

text \<open>
  The quantity and the reserved quantity that \<open>updateStock\<close> finds, 0 for a missing row,
  and the requests that reach its upsert with the store taking the write: the two
  identifiers are given, the product and the warehouse exist.
\<close>

definition reachesStore :: "env \<Rightarrow> db \<Rightarrow> id \<Rightarrow> id \<Rightarrow> bool" where
  "reachesStore e d productId warehouseId =
     (productId \<noteq> [] \<and> warehouseId \<noteq> [] \<and> products d productId \<noteq> None \<and>
      warehouseId \<in> warehouses d \<and> \<not> stockWriteFails e productId warehouseId)"

definition currentQuantity :: "db \<Rightarrow> id \<Rightarrow> id \<Rightarrow> int" where
  "currentQuantity d productId warehouseId =
     (case stockItems d (productId, warehouseId) of None \<Rightarrow> 0 | Some x \<Rightarrow> si_quantity x)"

definition currentReserved :: "db \<Rightarrow> id \<Rightarrow> id \<Rightarrow> int" where
  "currentReserved d productId warehouseId =
     (case stockItems d (productId, warehouseId) of None \<Rightarrow> 0 | Some x \<Rightarrow> si_reservedQty x)"

section \<open>A concrete store\<close>

text \<open>
  One store and one environment, on which the concrete runs below are evaluated: products
  P1 and P2, warehouse W1, supplier S1, customer C1, a user record for the caller
  \<open>sub-1\<close>, a stock row of 5 units of P1 in W1, the purchase order PO1 (ORDERED, one line
  of 10 units of P1, nothing received) and the sales order O1 (PENDING).

  Of the functions of the runtime the environment gives the values the runs below read,
  which are the runtime's (\<open>parseInt(1e21)\<close> is 1, \<open>200 * 0.0825\<close> is 16.5, \<open>200 + 16.5\<close>
  is 216.5, and a sum with 0 is the other number), and leaves every other value
  unspecified.
\<close>

definition ex_env :: env where
  "ex_env =
     \<lparr> now = 1000,
       newId = (\<lambda>n. ''new-'' @ replicate n (CHR ''i'')),
       orderNumberSuffix = ''2611-ABC123'',
       stockWriteFails = (\<lambda>p w. False),
       parseIntText = (\<lambda>t. undefined),
       parseIntExponent = (\<lambda>r. if r = 10 ^ 21 then Fin 1 else undefined),
       parseFloatText = (\<lambda>t. undefined),
       addDouble =
         (\<lambda>x y. if y = Fin 0 then x
                else if x = Fin 0 then y
                else if x = Fin 200 \<and> y = Fin 16.5 then Fin 216.5
                else undefined),
       subDouble = (\<lambda>x y. undefined),
       mulDouble = (\<lambda>x y. if x = Fin 200 \<and> y = Fin 0.0825 then Fin 16.5 else undefined) \<rparr>"

definition ex_stock :: StockItem where
  "ex_stock =
     \<lparr> si_id = ''ST1'',
       si_productId = ''P1'',
       si_warehouseId = ''W1'',
       si_quantity = 5,
       si_reservedQty = 0,
       si_availableQty = 5,
       si_lastCountAt = None \<rparr>"

definition ex_po :: PurchaseOrder where
  "ex_po =
     \<lparr> po_orderNumber = ''PO-2611-AAAAAA'',
       po_supplierId = ''S1'',
       po_status = ORDERED,
       po_subtotal = 50,
       po_taxAmount = 0,
       po_shippingAmount = 0,
       po_totalAmount = 50,
       po_receivedAt = None \<rparr>"

definition ex_po_item :: PurchaseOrderItem where
  "ex_po_item =
     \<lparr> poi_id = ''I1'',
       poi_purchaseOrderId = ''PO1'',
       poi_productId = ''P1'',
       poi_quantity = 10,
       poi_unitPrice = 5,
       poi_totalPrice = 50,
       poi_receivedQty = 0 \<rparr>"

definition ex_order :: Order where
  "ex_order =
     \<lparr> o_orderNumber = ''SO-2611-AAAAAA'',
       o_customerId = ''C1'',
       o_status = PENDING,
       o_subtotal = Fin 0,
       o_taxAmount = Fin 0,
       o_discountAmount = Fin 0,
       o_shippingAmount = Fin 0,
       o_totalAmount = Fin 0,
       o_shippedAt = None,
       o_deliveredAt = None \<rparr>"

definition ex_db :: db where
  "ex_db =
     \<lparr> products = [''P1'' \<mapsto> \<lparr> p_unitPrice = Fin 5, p_isTaxable = False \<rparr>,
                    ''P2'' \<mapsto> \<lparr> p_unitPrice = Fin 100, p_isTaxable = True \<rparr>],
       warehouses = {''W1''},
       suppliers = {''S1''},
       customers = [''C1'' \<mapsto> \<lparr> c_taxExempt = False \<rparr>],
       users = [''sub-1'' \<mapsto> ''U1''],
       stockItems = [(''P1'', ''W1'') \<mapsto> ex_stock],
       auditLogs = [],
       purchaseOrders = [''PO1'' \<mapsto> ex_po],
       purchaseOrderItems = [ex_po_item],
       orders = [''O1'' \<mapsto> ex_order],
       orderItems = [] \<rparr>"

text \<open>
  The same store after PO1 has grown a second line and its first line has been received
  in full: the order is PARTIAL, I1 is fully received, I2 (3 units of P2) is open.
\<close>

definition ex_db_partial :: db where
  "ex_db_partial =
     ex_db\<lparr> purchaseOrders := [''PO1'' \<mapsto> ex_po\<lparr>po_status := PARTIAL\<rparr>],
             purchaseOrderItems :=
               [ex_po_item\<lparr>poi_receivedQty := 10\<rparr>,
                ex_po_item\<lparr>poi_id := ''I2'', poi_productId := ''P2'', poi_quantity := 3\<rparr>] \<rparr>"

text \<open>The same store with 2 of the 5 units of P1 in W1 reserved.\<close>

definition ex_db_reserved :: db where
  "ex_db_reserved =
     ex_db\<lparr> stockItems :=
               [(''P1'', ''W1'') \<mapsto> ex_stock\<lparr>si_reservedQty := 2, si_availableQty := 3\<rparr>] \<rparr>"

text \<open>The same store with O1 shipped at time 500, and with O1 cancelled.\<close>

definition ex_db_shipped :: db where
  "ex_db_shipped =
     ex_db\<lparr> orders := [''O1'' \<mapsto> ex_order\<lparr>o_status := SHIPPED, o_shippedAt := Some 500\<rparr>] \<rparr>"

definition ex_db_cancelled :: db where
  "ex_db_cancelled = ex_db\<lparr> orders := [''O1'' \<mapsto> ex_order\<lparr>o_status := CANCELLED\<rparr>] \<rparr>"

text \<open>One requested sales order item: one unit of P1 at the product's price.\<close>

definition ex_item :: OrderItemInput where
  "ex_item =
     \<lparr> ii_productId = Some ''P1'', ii_quantity = JNum (Fin 1), ii_unitPrice = JUndefined,
       ii_discount = JUndefined \<rparr>"

text \<open>
  Requests to create orders: a sales order for C1 of two units of P2 at the product's
  price, and a purchase order for S1 and a sales order for C1 without an item list.
\<close>

definition ex_order_body :: OrderBody where
  "ex_order_body =
     \<lparr> ob_customerId = Some ''C1'',
       ob_orderNumber = None,
       ob_items = Some [\<lparr> ii_productId = Some ''P2'', ii_quantity = JNum (Fin 2),
                          ii_unitPrice = JUndefined, ii_discount = JUndefined \<rparr>],
       ob_discountAmount = JUndefined,
       ob_shippingAmount = JUndefined \<rparr>"

definition ex_po_body_no_items :: POBody where
  "ex_po_body_no_items =
     \<lparr> pb_supplierId = Some ''S1'',
       pb_orderNumber = None,
       pb_items = None,
       pb_taxAmount = None,
       pb_shippingAmount = None \<rparr>"

definition ex_order_body_no_items :: OrderBody where
  "ex_order_body_no_items =
     \<lparr> ob_customerId = Some ''C1'',
       ob_orderNumber = None,
       ob_items = Some [],
       ob_discountAmount = JUndefined,
       ob_shippingAmount = JUndefined \<rparr>"

section \<open>The stock ledger: proofs\<close>

lemmas ex_defs = ex_env_def ex_db_def ex_stock_def ex_po_def ex_po_item_def ex_order_def
  ex_db_partial_def ex_db_shipped_def ex_db_cancelled_def ex_item_def ex_order_body_def
  ex_po_body_no_items_def ex_order_body_no_items_def ex_db_reserved_def

lemmas js_defs = parseInt_def parseFloat_def jstrunc_def jtruthy_def orZero_def jsmax0_def
  safeInt_def jsadd_def jssub_def jsmul_def toInt_def

lemmas stock_defs = updateStock_def newQuantities_def stockItem_upsert_def stockAudit_def
  bulkUpdateStock_def bulkUpdateItem_def truthy_def Let_def

text \<open>Integers among the numbers of the runtime.\<close>

lemma toInt_Some: "toInt x = Some n \<longleftrightarrow> x = Fin (of_int n)"
  by (cases x) (auto simp: toInt_def)

lemma toInt_of_int [simp]: "toInt (Fin (of_int n)) = Some n"
  by (simp add: toInt_Some)

lemma orZero_of_int [simp]: "orZero (Fin (of_int n)) = Fin (of_int n)"
  by (simp add: orZero_def)

lemma jsmax0_of_int [simp]: "jsmax0 (Fin (of_int n)) = Fin (of_int (max 0 n))"
  by (simp add: jsmax0_def max_def)

lemma jsmax0_nonneg: "jsmax0 x = Fin (of_int n) \<Longrightarrow> 0 \<le> n"
  by (cases x) (auto simp: jsmax0_def max_def split: if_splits)

lemma jsgt_of_int [simp]: "jsgt (Fin (of_int a)) (Fin (of_int b)) \<longleftrightarrow> a > b"
  by simp

lemma safeInt_of_int: "safeInt (of_int n) \<longleftrightarrow> \<bar>n\<bar> \<le> 9007199254740992"
proof -
  have "\<bar>real_of_int n\<bar> = real_of_int \<bar>n\<bar>" by simp
  also have "\<dots> \<le> 9007199254740992 \<longleftrightarrow> \<bar>n\<bar> \<le> 9007199254740992"
    by linarith
  finally show ?thesis by (simp add: safeInt_def)
qed

lemma jsadd_of_int:
  "\<bar>a\<bar> \<le> 9007199254740992 \<Longrightarrow> \<bar>b\<bar> \<le> 9007199254740992 \<Longrightarrow> \<bar>a + b\<bar> \<le> 9007199254740992 \<Longrightarrow>
   jsadd e (Fin (of_int a)) (Fin (of_int b)) = Fin (of_int (a + b))"
  using safeInt_of_int [of a] safeInt_of_int [of b] safeInt_of_int [of "a + b"]
  by (simp add: jsadd_def)

lemma jssub_of_int:
  "\<bar>a\<bar> \<le> 9007199254740992 \<Longrightarrow> \<bar>b\<bar> \<le> 9007199254740992 \<Longrightarrow> \<bar>a - b\<bar> \<le> 9007199254740992 \<Longrightarrow>
   jssub e (Fin (of_int a)) (Fin (of_int b)) = Fin (of_int (a - b))"
  using safeInt_of_int [of a] safeInt_of_int [of b] safeInt_of_int [of "a - b"]
  by (simp add: jssub_def)

lemma jstrunc_of_int [simp]: "jstrunc (of_int n) = n"
  by (simp add: jstrunc_def)

lemma parseInt_of_int:
  assumes "\<bar>n\<bar> \<le> 9007199254740992"
  shows "parseInt e (JNum (Fin (of_int n))) = Fin (of_int n)"
proof -
  have "\<bar>real_of_int n\<bar> = real_of_int \<bar>n\<bar>" by simp
  moreover have "real_of_int \<bar>n\<bar> < 10 ^ 21"
  proof -
    have "real_of_int \<bar>n\<bar> \<le> 9007199254740992" using assms by linarith
    also have "(9007199254740992::real) < 10 ^ 21" by simp
    finally show ?thesis .
  qed
  moreover have "n = 0 \<or> 1 / 1000000 \<le> real_of_int \<bar>n\<bar>"
    by (cases "n = 0") (simp, linarith)
  ultimately show ?thesis
    by (auto simp: parseInt_def)
qed

text \<open>The new quantities in each mode, and the ways \<open>updateStock\<close> ends.\<close>

lemma current_as_number:
  "(case stockItems d (productId, warehouseId) of
      None \<Rightarrow> Fin 0
    | Some x \<Rightarrow> orZero (Fin (of_int (si_quantity x)))) =
   Fin (of_int (currentQuantity d productId warehouseId))"
  "(case stockItems d (productId, warehouseId) of
      None \<Rightarrow> Fin 0
    | Some x \<Rightarrow> orZero (Fin (of_int (si_reservedQty x)))) =
   Fin (of_int (currentReserved d productId warehouseId))"
  by (simp_all add: currentQuantity_def currentReserved_def split: option.splits)

lemma newQuantities_relative:
  "sb_adjustment body \<noteq> JUndefined \<Longrightarrow>
   newQuantities e (stockItems d (productId, warehouseId)) body =
     Some (jsmax0 (jsadd e (Fin (of_int (currentQuantity d productId warehouseId)))
                     (parseInt e (sb_adjustment body))),
           Fin (of_int (currentReserved d productId warehouseId)))"
  by (simp add: newQuantities_def current_as_number)

lemma newQuantities_absolute:
  "sb_adjustment body = JUndefined \<Longrightarrow> sb_quantity body \<noteq> JUndefined \<Longrightarrow>
   newQuantities e (stockItems d (productId, warehouseId)) body =
     Some (jsmax0 (parseInt e (sb_quantity body)),
           (if sb_reservedQty body \<noteq> JUndefined then parseInt e (sb_reservedQty body)
            else Fin (of_int (currentReserved d productId warehouseId))))"
  by (simp add: newQuantities_def current_as_number)

lemma newQuantities_absent:
  "sb_adjustment body = JUndefined \<Longrightarrow> sb_quantity body = JUndefined \<Longrightarrow>
   newQuantities e existing body = None"
  by (simp add: newQuantities_def)

lemma updateStock_Inr:
  assumes "updateStock e userId productId warehouseId (Some body) d = (Inr row, d')"
  shows "\<exists>nq nr.
    newQuantities e (stockItems d (productId, warehouseId)) body = Some (nq, nr) \<and>
    \<not> jsgt nr nq \<and>
    nq = Fin (of_int (si_quantity row)) \<and>
    nr = Fin (of_int (si_reservedQty row)) \<and>
    jssub e nq nr = Fin (of_int (si_availableQty row)) \<and>
    stockItems d' = (stockItems d)((productId, warehouseId) \<mapsto> row)"
  using assms
  by (auto simp: updateStock_def stockItem_upsert_def Let_def toInt_Some
      split: if_splits option.splits prod.splits)

lemma updateStock_checked:
  assumes "productId \<noteq> []" and "warehouseId \<noteq> []"
    and "products d productId \<noteq> None" and "warehouseId \<in> warehouses d"
  shows "newQuantities e (stockItems d (productId, warehouseId)) body = None \<Longrightarrow>
           updateStock e userId productId warehouseId (Some body) d =
             (Inl (ValidationError ''quantity or adjustment is required''), d)"
    and "newQuantities e (stockItems d (productId, warehouseId)) body = Some (nq, nr) \<Longrightarrow>
         jsgt nr nq \<Longrightarrow>
           updateStock e userId productId warehouseId (Some body) d =
             (Inl (ValidationError ''Reserved quantity cannot exceed total quantity''), d)"
  using assms by (simp_all add: updateStock_def)

lemma updateStock_succeeds:
  assumes "productId \<noteq> []" and "warehouseId \<noteq> []"
    and "products d productId \<noteq> None" and "warehouseId \<in> warehouses d"
    and "\<not> stockWriteFails e productId warehouseId"
    and nq: "newQuantities e (stockItems d (productId, warehouseId)) body =
           Some (Fin (of_int q), Fin (of_int r))"
    and "0 \<le> r" and "r \<le> q" and "q \<le> 9007199254740992"
  shows "\<exists>row d'. updateStock e userId productId warehouseId (Some body) d = (Inr row, d') \<and>
           si_quantity row = q \<and> si_reservedQty row = r \<and> si_availableQty row = q - r"
proof -
  have sub: "jssub e (Fin (of_int q)) (Fin (of_int r)) = Fin (of_int (q - r))"
    using assms(7-9) by (intro jssub_of_int) simp_all
  show ?thesis
    using assms(1-5,7,8)
    by (simp add: updateStock_def nq sub stockItem_upsert_def Let_def del: of_int_diff
        split: option.splits)
qed

lemma updateStock_relative_ignores_reserved:
  assumes "sb_adjustment body \<noteq> JUndefined"
  shows "updateStock e userId productId warehouseId (Some (body\<lparr>sb_reservedQty := r\<rparr>)) d =
         updateStock e userId productId warehouseId (Some body) d"
  using assms
  by (simp add: updateStock_def stockAudit_def newQuantities_def
      split del: if_split cong: if_cong option.case_cong)


text \<open>
  C7, as the handler has it. The quantity that a successful \<open>updateStock\<close> stores is never
  negative, and the row it returns is the row it stored: in relative mode (an adjustment
  is given) the quantity is the maximum of 0 and the current quantity plus what
  \<open>parseInt\<close> reads from the adjustment, where a missing row counts as 0, and in absolute
  mode it is the maximum of 0 and what \<open>parseInt\<close> reads from the given quantity. On
  integers of magnitude up to 2^53, \<open>parseInt\<close> reads the number itself and a request
  that reaches the store succeeds: in absolute mode the quantity q, given without a
  reserved quantity on a row whose reserved quantity lies between 0 and the maximum of 0
  and q, stores the maximum of 0 and q; in relative mode the adjustment a, given on a row
  whose reserved quantity lies between 0 and the maximum of 0 and the current quantity
  plus a, stores that maximum.
\<close>

theorem updateStock_quantity_clamped:
  "(\<forall>row d'. updateStock e userId productId warehouseId (Some body) d = (Inr row, d') \<longrightarrow>
      0 \<le> si_quantity row \<and>
      stockItems d' (productId, warehouseId) = Some row \<and>
      Fin (of_int (si_quantity row)) =
        (if sb_adjustment body \<noteq> JUndefined
         then jsmax0 (jsadd e (Fin (of_int (currentQuantity d productId warehouseId)))
                        (parseInt e (sb_adjustment body)))
         else jsmax0 (parseInt e (sb_quantity body)))) \<and>
   (\<forall>q. reachesStore e d productId warehouseId \<and>
        sb_adjustment body = JUndefined \<and> sb_quantity body = JNum (Fin (of_int q)) \<and>
        sb_reservedQty body = JUndefined \<and> \<bar>q\<bar> \<le> 9007199254740992 \<and>
        0 \<le> currentReserved d productId warehouseId \<and>
        currentReserved d productId warehouseId \<le> max 0 q \<longrightarrow>
        (\<exists>row d'. updateStock e userId productId warehouseId (Some body) d = (Inr row, d') \<and>
                   si_quantity row = max 0 q)) \<and>
   (\<forall>a. reachesStore e d productId warehouseId \<and>
        sb_adjustment body = JNum (Fin (of_int a)) \<and> \<bar>a\<bar> \<le> 9007199254740992 \<and>
        \<bar>currentQuantity d productId warehouseId\<bar> \<le> 9007199254740992 \<and>
        \<bar>currentQuantity d productId warehouseId + a\<bar> \<le> 9007199254740992 \<and>
        0 \<le> currentReserved d productId warehouseId \<and>
        currentReserved d productId warehouseId \<le>
          max 0 (currentQuantity d productId warehouseId + a) \<longrightarrow>
        (\<exists>row d'. updateStock e userId productId warehouseId (Some body) d = (Inr row, d') \<and>
                   si_quantity row = max 0 (currentQuantity d productId warehouseId + a)))"
proof (intro conjI allI impI)
  fix row d'
  assume run: "updateStock e userId productId warehouseId (Some body) d = (Inr row, d')"
  from updateStock_Inr [OF run] obtain nq nr where
    n: "newQuantities e (stockItems d (productId, warehouseId)) body = Some (nq, nr)"
    and q: "nq = Fin (of_int (si_quantity row))"
    and s: "stockItems d' = (stockItems d)((productId, warehouseId) \<mapsto> row)"
    by blast
  from n have m: "nq =
        (if sb_adjustment body \<noteq> JUndefined
         then jsmax0 (jsadd e (Fin (of_int (currentQuantity d productId warehouseId)))
                        (parseInt e (sb_adjustment body)))
         else jsmax0 (parseInt e (sb_quantity body)))"
    by (simp add: newQuantities_def current_as_number split: if_splits)
  from m q show "0 \<le> si_quantity row"
    by (metis jsmax0_nonneg)
  from s show "stockItems d' (productId, warehouseId) = Some row"
    by simp
  from m q show "Fin (of_int (si_quantity row)) =
        (if sb_adjustment body \<noteq> JUndefined
         then jsmax0 (jsadd e (Fin (of_int (currentQuantity d productId warehouseId)))
                        (parseInt e (sb_adjustment body)))
         else jsmax0 (parseInt e (sb_quantity body)))"
    by simp
next
  fix q
  assume a: "reachesStore e d productId warehouseId \<and>
        sb_adjustment body = JUndefined \<and> sb_quantity body = JNum (Fin (of_int q)) \<and>
        sb_reservedQty body = JUndefined \<and> \<bar>q\<bar> \<le> 9007199254740992 \<and>
        0 \<le> currentReserved d productId warehouseId \<and>
        currentReserved d productId warehouseId \<le> max 0 q"
  then have n: "newQuantities e (stockItems d (productId, warehouseId)) body =
      Some (Fin (of_int (max 0 q)), Fin (of_int (currentReserved d productId warehouseId)))"
    by (simp add: newQuantities_absolute parseInt_of_int)
  from a have "max 0 q \<le> 9007199254740992" by linarith
  with a updateStock_succeeds [OF _ _ _ _ _ n, of userId]
  show "\<exists>row d'. updateStock e userId productId warehouseId (Some body) d = (Inr row, d') \<and>
                   si_quantity row = max 0 q"
    unfolding reachesStore_def by blast
next
  fix a
  assume a: "reachesStore e d productId warehouseId \<and>
        sb_adjustment body = JNum (Fin (of_int a)) \<and> \<bar>a\<bar> \<le> 9007199254740992 \<and>
        \<bar>currentQuantity d productId warehouseId\<bar> \<le> 9007199254740992 \<and>
        \<bar>currentQuantity d productId warehouseId + a\<bar> \<le> 9007199254740992 \<and>
        0 \<le> currentReserved d productId warehouseId \<and>
        currentReserved d productId warehouseId \<le>
          max 0 (currentQuantity d productId warehouseId + a)"
  then have n: "newQuantities e (stockItems d (productId, warehouseId)) body =
      Some (Fin (of_int (max 0 (currentQuantity d productId warehouseId + a))),
            Fin (of_int (currentReserved d productId warehouseId)))"
    by (simp add: newQuantities_relative parseInt_of_int jsadd_of_int del: of_int_add)
  from a have "max 0 (currentQuantity d productId warehouseId + a) \<le> 9007199254740992"
    by linarith
  with a updateStock_succeeds [OF _ _ _ _ _ n, of userId]
  show "\<exists>row d'. updateStock e userId productId warehouseId (Some body) d = (Inr row, d') \<and>
                   si_quantity row = max 0 (currentQuantity d productId warehouseId + a)"
    unfolding reachesStore_def by blast
qed

text \<open>
  The row of 5 units of P1 in W1: adjusted by -8, the call succeeds and stores the
  quantity 0; set to the quantity 7, the call succeeds and stores the quantity 7.
\<close>

theorem updateStock_quantity_clamped_witness:
  "updateStock ex_env ''sub-1'' ''P1'' ''W1''
     (Some \<lparr> sb_adjustment = JNum (Fin (- 8)), sb_quantity = JUndefined,
             sb_reservedQty = JUndefined, sb_isCount = False \<rparr>) ex_db =
   (Inr (ex_stock\<lparr>si_quantity := 0, si_availableQty := 0\<rparr>),
    snd (updateStock ex_env ''sub-1'' ''P1'' ''W1''
     (Some \<lparr> sb_adjustment = JNum (Fin (- 8)), sb_quantity = JUndefined,
             sb_reservedQty = JUndefined, sb_isCount = False \<rparr>) ex_db)) \<and>
   updateStock ex_env ''sub-1'' ''P1'' ''W1''
     (Some \<lparr> sb_adjustment = JUndefined, sb_quantity = JNum (Fin 7),
             sb_reservedQty = JUndefined, sb_isCount = False \<rparr>) ex_db =
   (Inr (ex_stock\<lparr>si_quantity := 7, si_availableQty := 7\<rparr>),
    snd (updateStock ex_env ''sub-1'' ''P1'' ''W1''
     (Some \<lparr> sb_adjustment = JUndefined, sb_quantity = JNum (Fin 7),
             sb_reservedQty = JUndefined, sb_isCount = False \<rparr>) ex_db)) \<and>
   reachesStore ex_env ex_db ''P1'' ''W1'' \<and>
   currentQuantity ex_db ''P1'' ''W1'' = 5 \<and>
   currentReserved ex_db ''P1'' ''W1'' = 0 \<and>
   parseInt ex_env (JNum (Fin (- 8))) = Fin (- 8) \<and>
   jsmax0 (jsadd ex_env (Fin 5) (Fin (- 8))) = Fin 0 \<and>
   jsmax0 (parseInt ex_env (JNum (Fin 7))) = Fin 7 \<and>
   stockItems (snd (updateStock ex_env ''sub-1'' ''P1'' ''W1''
     (Some \<lparr> sb_adjustment = JNum (Fin (- 8)), sb_quantity = JUndefined,
             sb_reservedQty = JUndefined, sb_isCount = False \<rparr>) ex_db)) (''P1'', ''W1'') =
     Some (ex_stock\<lparr>si_quantity := 0, si_availableQty := 0\<rparr>) \<and>
   stockItems (snd (updateStock ex_env ''sub-1'' ''P1'' ''W1''
     (Some \<lparr> sb_adjustment = JUndefined, sb_quantity = JNum (Fin 7),
             sb_reservedQty = JUndefined, sb_isCount = False \<rparr>) ex_db)) (''P1'', ''W1'') =
     Some (ex_stock\<lparr>si_quantity := 7, si_availableQty := 7\<rparr>)"
proof -
  have rel: "updateStock ex_env ''sub-1'' ''P1'' ''W1''
     (Some \<lparr> sb_adjustment = JNum (Fin (- 8)), sb_quantity = JUndefined,
             sb_reservedQty = JUndefined, sb_isCount = False \<rparr>) ex_db =
   (Inr (ex_stock\<lparr>si_quantity := 0, si_availableQty := 0\<rparr>),
    snd (updateStock ex_env ''sub-1'' ''P1'' ''W1''
     (Some \<lparr> sb_adjustment = JNum (Fin (- 8)), sb_quantity = JUndefined,
             sb_reservedQty = JUndefined, sb_isCount = False \<rparr>) ex_db))"
    by (simp add: stock_defs js_defs ex_defs)
  have abs: "updateStock ex_env ''sub-1'' ''P1'' ''W1''
     (Some \<lparr> sb_adjustment = JUndefined, sb_quantity = JNum (Fin 7),
             sb_reservedQty = JUndefined, sb_isCount = False \<rparr>) ex_db =
   (Inr (ex_stock\<lparr>si_quantity := 7, si_availableQty := 7\<rparr>),
    snd (updateStock ex_env ''sub-1'' ''P1'' ''W1''
     (Some \<lparr> sb_adjustment = JUndefined, sb_quantity = JNum (Fin 7),
             sb_reservedQty = JUndefined, sb_isCount = False \<rparr>) ex_db))"
    by (simp add: stock_defs js_defs ex_defs)
  have pre: "reachesStore ex_env ex_db ''P1'' ''W1''"
    "currentQuantity ex_db ''P1'' ''W1'' = 5" "currentReserved ex_db ''P1'' ''W1'' = 0"
    by (simp_all add: reachesStore_def currentQuantity_def currentReserved_def ex_defs)
  have num: "parseInt ex_env (JNum (Fin (- 8))) = Fin (- 8)"
    "jsmax0 (jsadd ex_env (Fin 5) (Fin (- 8))) = Fin 0"
    "jsmax0 (parseInt ex_env (JNum (Fin 7))) = Fin 7"
    by (simp_all add: js_defs)
  from updateStock_quantity_clamped
         [of ex_env "''sub-1''" "''P1''" "''W1''"
             "\<lparr> sb_adjustment = JNum (Fin (- 8)), sb_quantity = JUndefined,
                sb_reservedQty = JUndefined, sb_isCount = False \<rparr>" ex_db]
       updateStock_quantity_clamped
         [of ex_env "''sub-1''" "''P1''" "''W1''"
             "\<lparr> sb_adjustment = JUndefined, sb_quantity = JNum (Fin 7),
                sb_reservedQty = JUndefined, sb_isCount = False \<rparr>" ex_db]
       rel abs pre num
  show ?thesis by simp
qed

text \<open>
  The claim as stated fails where the given number is not an integer printed in plain
  notation. On the row of 5 units, the quantity 5.5 stores 5 and not 5.5, the quantity
  1e21 stores 1, and the adjustment 2.5 stores 7 and not 7.5.
\<close>

theorem updateStock_quantity_counterexample:
  "fst (updateStock ex_env ''sub-1'' ''P1'' ''W1''
     (Some \<lparr> sb_adjustment = JUndefined, sb_quantity = JNum (Fin 5.5),
             sb_reservedQty = JUndefined, sb_isCount = False \<rparr>) ex_db) =
     Inr (ex_stock\<lparr>si_quantity := 5, si_availableQty := 5\<rparr>) \<and>
   max 0 (5.5 :: real) \<noteq> 5 \<and>
   fst (updateStock ex_env ''sub-1'' ''P1'' ''W1''
     (Some \<lparr> sb_adjustment = JUndefined, sb_quantity = JNum (Fin (10 ^ 21)),
             sb_reservedQty = JUndefined, sb_isCount = False \<rparr>) ex_db) =
     Inr (ex_stock\<lparr>si_quantity := 1, si_availableQty := 1\<rparr>) \<and>
   max 0 (10 ^ 21 :: real) \<noteq> 1 \<and>
   fst (updateStock ex_env ''sub-1'' ''P1'' ''W1''
     (Some \<lparr> sb_adjustment = JNum (Fin 2.5), sb_quantity = JUndefined,
             sb_reservedQty = JUndefined, sb_isCount = False \<rparr>) ex_db) =
     Inr (ex_stock\<lparr>si_quantity := 7, si_availableQty := 7\<rparr>) \<and>
   max 0 (5 + 2.5 :: real) \<noteq> 7"
  by (simp add: stock_defs js_defs ex_defs)


text \<open>
  C8, as the handler has it. For a product and a warehouse that exist: in absolute mode
  (a quantity and no adjustment is given), if what \<open>parseInt\<close> reads from the supplied
  reserved quantity exceeds the resulting quantity, the call fails with the validation
  error of a reserved quantity that exceeds the total, and the store is unchanged; a body
  with neither a quantity nor an adjustment fails with the validation error that one of
  them is required, and the store is unchanged; in relative mode the supplied reserved
  quantity is not read, and the row that a successful call stores has the reserved
  quantity the row had before, 0 for a new row. On integers of magnitude up to 2^53,
  when the store takes the write: a relative request succeeds if the reserved quantity
  of the row lies between 0 and the resulting quantity, whatever reserved quantity is
  supplied; an absolute request succeeds, and stores the supplied reserved quantity, if
  that lies between 0 and the resulting quantity.
\<close>

theorem updateStock_reserved_validation:
  assumes "productId \<noteq> []" and "warehouseId \<noteq> []"
    and "products d productId \<noteq> None" and "warehouseId \<in> warehouses d"
  shows "(sb_adjustment body = JUndefined \<and> sb_quantity body \<noteq> JUndefined \<and>
          sb_reservedQty body \<noteq> JUndefined \<and>
          jsgt (parseInt e (sb_reservedQty body)) (jsmax0 (parseInt e (sb_quantity body))) \<longrightarrow>
            updateStock e userId productId warehouseId (Some body) d =
              (Inl (ValidationError ''Reserved quantity cannot exceed total quantity''), d)) \<and>
         (sb_adjustment body = JUndefined \<and> sb_quantity body = JUndefined \<longrightarrow>
            updateStock e userId productId warehouseId (Some body) d =
              (Inl (ValidationError ''quantity or adjustment is required''), d)) \<and>
         (sb_adjustment body \<noteq> JUndefined \<longrightarrow>
            updateStock e userId productId warehouseId (Some body) d =
            updateStock e userId productId warehouseId
              (Some (body\<lparr>sb_reservedQty := JUndefined\<rparr>)) d \<and>
            (\<forall>row d'. updateStock e userId productId warehouseId (Some body) d = (Inr row, d') \<longrightarrow>
                 si_reservedQty row = currentReserved d productId warehouseId)) \<and>
         (\<forall>a. \<not> stockWriteFails e productId warehouseId \<and>
              sb_adjustment body = JNum (Fin (of_int a)) \<and> \<bar>a\<bar> \<le> 9007199254740992 \<and>
              \<bar>currentQuantity d productId warehouseId\<bar> \<le> 9007199254740992 \<and>
              \<bar>currentQuantity d productId warehouseId + a\<bar> \<le> 9007199254740992 \<and>
              0 \<le> currentReserved d productId warehouseId \<and>
              currentReserved d productId warehouseId \<le>
                max 0 (currentQuantity d productId warehouseId + a) \<longrightarrow>
              (\<exists>row d'. updateStock e userId productId warehouseId (Some body) d = (Inr row, d') \<and>
                 si_quantity row = max 0 (currentQuantity d productId warehouseId + a) \<and>
                 si_reservedQty row = currentReserved d productId warehouseId)) \<and>
         (\<forall>q r. \<not> stockWriteFails e productId warehouseId \<and>
              sb_adjustment body = JUndefined \<and> sb_quantity body = JNum (Fin (of_int q)) \<and>
              sb_reservedQty body = JNum (Fin (of_int r)) \<and> \<bar>q\<bar> \<le> 9007199254740992 \<and>
              0 \<le> r \<and> r \<le> max 0 q \<longrightarrow>
              (\<exists>row d'. updateStock e userId productId warehouseId (Some body) d = (Inr row, d') \<and>
                 si_quantity row = max 0 q \<and> si_reservedQty row = r))"
proof (intro conjI allI impI)
  assume "sb_adjustment body = JUndefined \<and> sb_quantity body \<noteq> JUndefined \<and>
          sb_reservedQty body \<noteq> JUndefined \<and>
          jsgt (parseInt e (sb_reservedQty body)) (jsmax0 (parseInt e (sb_quantity body)))"
  then show "updateStock e userId productId warehouseId (Some body) d =
              (Inl (ValidationError ''Reserved quantity cannot exceed total quantity''), d)"
    using updateStock_checked(2) [OF assms, of e body "jsmax0 (parseInt e (sb_quantity body))"
            "parseInt e (sb_reservedQty body)"]
      newQuantities_absolute [of body e d productId warehouseId]
    by simp
next
  assume "sb_adjustment body = JUndefined \<and> sb_quantity body = JUndefined"
  then show "updateStock e userId productId warehouseId (Some body) d =
              (Inl (ValidationError ''quantity or adjustment is required''), d)"
    using updateStock_checked(1) [OF assms] newQuantities_absent by blast
next
  assume "sb_adjustment body \<noteq> JUndefined"
  then show "updateStock e userId productId warehouseId (Some body) d =
            updateStock e userId productId warehouseId
              (Some (body\<lparr>sb_reservedQty := JUndefined\<rparr>)) d"
    by (simp add: updateStock_relative_ignores_reserved)
next
  fix row d'
  assume adj: "sb_adjustment body \<noteq> JUndefined"
    and run: "updateStock e userId productId warehouseId (Some body) d = (Inr row, d')"
  from updateStock_Inr [OF run] obtain nq nr where
    n: "newQuantities e (stockItems d (productId, warehouseId)) body = Some (nq, nr)"
    and r: "nr = Fin (of_int (si_reservedQty row))"
    by blast
  from n r adj show "si_reservedQty row = currentReserved d productId warehouseId"
    by (simp add: newQuantities_relative)
next
  fix a
  assume a: "\<not> stockWriteFails e productId warehouseId \<and>
              sb_adjustment body = JNum (Fin (of_int a)) \<and> \<bar>a\<bar> \<le> 9007199254740992 \<and>
              \<bar>currentQuantity d productId warehouseId\<bar> \<le> 9007199254740992 \<and>
              \<bar>currentQuantity d productId warehouseId + a\<bar> \<le> 9007199254740992 \<and>
              0 \<le> currentReserved d productId warehouseId \<and>
              currentReserved d productId warehouseId \<le>
                max 0 (currentQuantity d productId warehouseId + a)"
  then have n: "newQuantities e (stockItems d (productId, warehouseId)) body =
      Some (Fin (of_int (max 0 (currentQuantity d productId warehouseId + a))),
            Fin (of_int (currentReserved d productId warehouseId)))"
    by (simp add: newQuantities_relative parseInt_of_int jsadd_of_int del: of_int_add)
  from a have "max 0 (currentQuantity d productId warehouseId + a) \<le> 9007199254740992"
    by linarith
  with a updateStock_succeeds [OF assms _ n, of userId]
  show "\<exists>row d'. updateStock e userId productId warehouseId (Some body) d = (Inr row, d') \<and>
          si_quantity row = max 0 (currentQuantity d productId warehouseId + a) \<and>
          si_reservedQty row = currentReserved d productId warehouseId"
    by blast
next
  fix q r
  assume a: "\<not> stockWriteFails e productId warehouseId \<and>
              sb_adjustment body = JUndefined \<and> sb_quantity body = JNum (Fin (of_int q)) \<and>
              sb_reservedQty body = JNum (Fin (of_int r)) \<and> \<bar>q\<bar> \<le> 9007199254740992 \<and>
              0 \<le> r \<and> r \<le> max 0 q"
  then have "\<bar>r\<bar> \<le> 9007199254740992" by linarith
  with a have n: "newQuantities e (stockItems d (productId, warehouseId)) body =
      Some (Fin (of_int (max 0 q)), Fin (of_int r))"
    by (simp add: newQuantities_absolute parseInt_of_int)
  from a have "max 0 q \<le> 9007199254740992" by linarith
  with a updateStock_succeeds [OF assms _ n, of userId]
  show "\<exists>row d'. updateStock e userId productId warehouseId (Some body) d = (Inr row, d') \<and>
          si_quantity row = max 0 q \<and> si_reservedQty row = r"
    by blast
qed

text \<open>
  On the row of 5 units of which 2 are reserved: quantity 3 with 10 reserved is refused
  because the reserved quantity exceeds the total; a body of only 10 reserved is refused
  because a quantity or an adjustment is required; an adjustment of 1 with 10 reserved
  succeeds with quantity 6 and the 2 units still reserved; quantity 7 with 4 reserved
  succeeds and stores both.
\<close>

theorem updateStock_reserved_validation_witness:
  "''P1'' \<noteq> [] \<and> ''W1'' \<noteq> [] \<and> products ex_db_reserved ''P1'' \<noteq> None \<and>
   ''W1'' \<in> warehouses ex_db_reserved \<and>
   currentQuantity ex_db_reserved ''P1'' ''W1'' = 5 \<and>
   currentReserved ex_db_reserved ''P1'' ''W1'' = 2 \<and>
   jsgt (parseInt ex_env (JNum (Fin 10))) (jsmax0 (parseInt ex_env (JNum (Fin 3)))) \<and>
   updateStock ex_env ''sub-1'' ''P1'' ''W1''
     (Some \<lparr> sb_adjustment = JUndefined, sb_quantity = JNum (Fin 3),
             sb_reservedQty = JNum (Fin 10), sb_isCount = False \<rparr>) ex_db_reserved =
     (Inl (ValidationError ''Reserved quantity cannot exceed total quantity''), ex_db_reserved) \<and>
   updateStock ex_env ''sub-1'' ''P1'' ''W1''
     (Some \<lparr> sb_adjustment = JUndefined, sb_quantity = JUndefined,
             sb_reservedQty = JNum (Fin 10), sb_isCount = False \<rparr>) ex_db_reserved =
     (Inl (ValidationError ''quantity or adjustment is required''), ex_db_reserved) \<and>
   updateStock ex_env ''sub-1'' ''P1'' ''W1''
     (Some \<lparr> sb_adjustment = JNum (Fin 1), sb_quantity = JUndefined,
             sb_reservedQty = JNum (Fin 10), sb_isCount = False \<rparr>) ex_db_reserved =
     (Inr (ex_stock\<lparr>si_quantity := 6, si_reservedQty := 2, si_availableQty := 4\<rparr>),
      snd (updateStock ex_env ''sub-1'' ''P1'' ''W1''
        (Some \<lparr> sb_adjustment = JNum (Fin 1), sb_quantity = JUndefined,
                sb_reservedQty = JNum (Fin 10), sb_isCount = False \<rparr>) ex_db_reserved)) \<and>
   si_reservedQty (ex_stock\<lparr>si_quantity := 6, si_reservedQty := 2, si_availableQty := 4\<rparr>) = 2 \<and>
   updateStock ex_env ''sub-1'' ''P1'' ''W1''
     (Some \<lparr> sb_adjustment = JUndefined, sb_quantity = JNum (Fin 7),
             sb_reservedQty = JNum (Fin 4), sb_isCount = False \<rparr>) ex_db_reserved =
     (Inr (ex_stock\<lparr>si_quantity := 7, si_reservedQty := 4, si_availableQty := 3\<rparr>),
      snd (updateStock ex_env ''sub-1'' ''P1'' ''W1''
        (Some \<lparr> sb_adjustment = JUndefined, sb_quantity = JNum (Fin 7),
                sb_reservedQty = JNum (Fin 4), sb_isCount = False \<rparr>) ex_db_reserved))"
proof -
  have h: "''P1'' \<noteq> []" "''W1'' \<noteq> []" "products ex_db_reserved ''P1'' \<noteq> None"
    "''W1'' \<in> warehouses ex_db_reserved"
    by (simp_all add: ex_defs)
  have cur: "currentQuantity ex_db_reserved ''P1'' ''W1'' = 5"
    "currentReserved ex_db_reserved ''P1'' ''W1'' = 2"
    by (simp_all add: currentQuantity_def currentReserved_def ex_defs)
  have gt: "jsgt (parseInt ex_env (JNum (Fin 10))) (jsmax0 (parseInt ex_env (JNum (Fin 3))))"
    by (simp add: js_defs)
  have rel: "updateStock ex_env ''sub-1'' ''P1'' ''W1''
     (Some \<lparr> sb_adjustment = JNum (Fin 1), sb_quantity = JUndefined,
             sb_reservedQty = JNum (Fin 10), sb_isCount = False \<rparr>) ex_db_reserved =
     (Inr (ex_stock\<lparr>si_quantity := 6, si_reservedQty := 2, si_availableQty := 4\<rparr>),
      snd (updateStock ex_env ''sub-1'' ''P1'' ''W1''
        (Some \<lparr> sb_adjustment = JNum (Fin 1), sb_quantity = JUndefined,
                sb_reservedQty = JNum (Fin 10), sb_isCount = False \<rparr>) ex_db_reserved))"
    by (simp add: stock_defs js_defs ex_defs)
  have abs: "updateStock ex_env ''sub-1'' ''P1'' ''W1''
     (Some \<lparr> sb_adjustment = JUndefined, sb_quantity = JNum (Fin 7),
             sb_reservedQty = JNum (Fin 4), sb_isCount = False \<rparr>) ex_db_reserved =
     (Inr (ex_stock\<lparr>si_quantity := 7, si_reservedQty := 4, si_availableQty := 3\<rparr>),
      snd (updateStock ex_env ''sub-1'' ''P1'' ''W1''
        (Some \<lparr> sb_adjustment = JUndefined, sb_quantity = JNum (Fin 7),
                sb_reservedQty = JNum (Fin 4), sb_isCount = False \<rparr>) ex_db_reserved))"
    by (simp add: stock_defs js_defs ex_defs)
  from updateStock_reserved_validation
         [OF h, of "\<lparr> sb_adjustment = JUndefined, sb_quantity = JNum (Fin 3),
                       sb_reservedQty = JNum (Fin 10), sb_isCount = False \<rparr>"
             ex_env "''sub-1''"]
       updateStock_reserved_validation
         [OF h, of "\<lparr> sb_adjustment = JUndefined, sb_quantity = JUndefined,
                       sb_reservedQty = JNum (Fin 10), sb_isCount = False \<rparr>"
             ex_env "''sub-1''"]
       updateStock_reserved_validation
         [OF h, of "\<lparr> sb_adjustment = JNum (Fin 1), sb_quantity = JUndefined,
                       sb_reservedQty = JNum (Fin 10), sb_isCount = False \<rparr>"
             ex_env "''sub-1''"]
       h cur gt rel abs
  show ?thesis by simp
qed

text \<open>
  The claim as stated fails in relative mode: on the row of 5 units, an adjustment of 1
  with 10 reserved succeeds with quantity 6, although 10 exceeds 6. The body of only 10
  reserved fails for the missing quantity, not for the reserved quantity. And in absolute
  mode quantity 5 with 5.5 reserved succeeds, with 5 reserved, although 5.5 exceeds 5.
\<close>

theorem updateStock_reserved_counterexample:
  "fst (updateStock ex_env ''sub-1'' ''P1'' ''W1''
     (Some \<lparr> sb_adjustment = JNum (Fin 1), sb_quantity = JUndefined,
             sb_reservedQty = JNum (Fin 10), sb_isCount = False \<rparr>) ex_db) =
     Inr (ex_stock\<lparr>si_quantity := 6, si_availableQty := 6\<rparr>) \<and>
   updateStock ex_env ''sub-1'' ''P1'' ''W1''
     (Some \<lparr> sb_adjustment = JUndefined, sb_quantity = JUndefined,
             sb_reservedQty = JNum (Fin 10), sb_isCount = False \<rparr>) ex_db =
     (Inl (ValidationError ''quantity or adjustment is required''), ex_db) \<and>
   fst (updateStock ex_env ''sub-1'' ''P1'' ''W1''
     (Some \<lparr> sb_adjustment = JUndefined, sb_quantity = JNum (Fin 5),
             sb_reservedQty = JNum (Fin 5.5), sb_isCount = False \<rparr>) ex_db) =
     Inr (ex_stock\<lparr>si_quantity := 5, si_reservedQty := 5, si_availableQty := 0\<rparr>) \<and>
   (5.5 :: real) > max 0 5"
  by (simp add: stock_defs js_defs ex_defs)

text \<open>
  C1, evaluated where it fails. A bulk update of P1 in W1 to quantity 1 with 5 reserved is
  reported as a success and stores a row with 5 reserved of 1 and -4 available, which
  breaks the invariant of a stock row.
\<close>

theorem bulkUpdateStock_breaks_invariant:
  "fst (bulkUpdateStock ex_env
     (Some \<lparr> bulk_items = Some [\<lparr> bi_productId = Some ''P1'', bi_warehouseId = Some ''W1'',
                                  bi_quantity = Some 1, bi_reservedQty = Some 5 \<rparr>] \<rparr>) ex_db) =
     Inr [\<lparr> br_productId = Some ''P1'', br_warehouseId = Some ''W1'', br_success = True,
            br_error = None \<rparr>] \<and>
   stockItems (snd (bulkUpdateStock ex_env
     (Some \<lparr> bulk_items = Some [\<lparr> bi_productId = Some ''P1'', bi_warehouseId = Some ''W1'',
                                  bi_quantity = Some 1, bi_reservedQty = Some 5 \<rparr>] \<rparr>) ex_db))
     (''P1'', ''W1'') =
     Some (ex_stock\<lparr> si_quantity := 1, si_reservedQty := 5, si_availableQty := - 4,
                     si_lastCountAt := Some 1000 \<rparr>) \<and>
   \<not> stock_invariant (ex_stock\<lparr> si_quantity := 1, si_reservedQty := 5, si_availableQty := - 4,
                     si_lastCountAt := Some 1000 \<rparr>)"
  by (simp add: stock_defs ex_defs stock_invariant_def)

text \<open>
  C9, evaluated where it fails. A bulk update of P1 in W1 to quantity 7 with 2 reserved is
  reported as a success and stores the row, a user record exists in the store, and the
  audit log is as empty as before.
\<close>

theorem bulkUpdateStock_writes_no_audit:
  "fst (bulkUpdateStock ex_env
     (Some \<lparr> bulk_items = Some [\<lparr> bi_productId = Some ''P1'', bi_warehouseId = Some ''W1'',
                                  bi_quantity = Some 7, bi_reservedQty = Some 2 \<rparr>] \<rparr>) ex_db) =
     Inr [\<lparr> br_productId = Some ''P1'', br_warehouseId = Some ''W1'', br_success = True,
            br_error = None \<rparr>] \<and>
   stockItems (snd (bulkUpdateStock ex_env
     (Some \<lparr> bulk_items = Some [\<lparr> bi_productId = Some ''P1'', bi_warehouseId = Some ''W1'',
                                  bi_quantity = Some 7, bi_reservedQty = Some 2 \<rparr>] \<rparr>) ex_db))
     (''P1'', ''W1'') =
     Some (ex_stock\<lparr> si_quantity := 7, si_reservedQty := 2, si_availableQty := 5,
                     si_lastCountAt := Some 1000 \<rparr>) \<and>
   users ex_db ''sub-1'' = Some ''U1'' \<and>
   auditLogs ex_db = [] \<and>
   auditLogs (snd (bulkUpdateStock ex_env
     (Some \<lparr> bulk_items = Some [\<lparr> bi_productId = Some ''P1'', bi_warehouseId = Some ''W1'',
                                  bi_quantity = Some 7, bi_reservedQty = Some 2 \<rparr>] \<rparr>) ex_db)) = []"
  by (simp add: stock_defs ex_defs)


text \<open>
  Further facts about the ledger. A successful \<open>updateStock\<close> stores a row whose quantity
  is not negative and whose reserved quantity does not exceed its quantity; its available
  quantity is their difference when the quantity is at most 2^53 and the reserved
  quantity is not negative. It appends exactly one audit entry with the quantities before
  and after when the caller has a user record, and none when the caller has none.
  \<open>bulkUpdateStock\<close> never changes the audit log.
\<close>

lemma updateStock_audit_entry:
  assumes "updateStock e userId productId warehouseId (Some body) d = (Inr row, d')"
  shows "(case users d userId of
            None \<Rightarrow> auditLogs d' = auditLogs d
          | Some userRowId \<Rightarrow>
              (\<exists>entry. auditLogs d' = auditLogs d @ [entry] \<and>
                 al_userId entry = userRowId \<and>
                 al_entityType entry = ''StockItem'' \<and>
                 ch_before (al_changes entry) =
                   map_option (\<lambda>x. (si_quantity x, si_reservedQty x))
                     (stockItems d (productId, warehouseId)) \<and>
                 ch_after (al_changes entry) = (si_quantity row, si_reservedQty row)))"
  using assms
  by (auto simp: updateStock_def stockItem_upsert_def stockAudit_def Let_def
      split: if_splits option.splits prod.splits)

lemma updateStock_row_bounds:
  assumes "updateStock e userId productId warehouseId (Some body) d = (Inr row, d')"
  shows "0 \<le> si_quantity row \<and> si_reservedQty row \<le> si_quantity row \<and>
         stockItems d' = (stockItems d)((productId, warehouseId) \<mapsto> row)"
proof -
  from updateStock_Inr [OF assms] obtain nq nr where
    n: "newQuantities e (stockItems d (productId, warehouseId)) body = Some (nq, nr)"
    and g: "\<not> jsgt nr nq"
    and q: "nq = Fin (of_int (si_quantity row))"
    and r: "nr = Fin (of_int (si_reservedQty row))"
    and s: "stockItems d' = (stockItems d)((productId, warehouseId) \<mapsto> row)"
    by blast
  from n q have "\<exists>x. jsmax0 x = Fin (of_int (si_quantity row))"
    by (auto simp: newQuantities_def Let_def split: if_splits)
  then have "0 \<le> si_quantity row"
    by (auto dest: jsmax0_nonneg)
  with g q r s show ?thesis by simp
qed

lemma updateStock_available:
  assumes "updateStock e userId productId warehouseId (Some body) d = (Inr row, d')"
    and "si_quantity row \<le> 9007199254740992" and "0 \<le> si_reservedQty row"
  shows "si_availableQty row = si_quantity row - si_reservedQty row"
proof -
  from updateStock_Inr [OF assms(1)] have
    a: "jssub e (Fin (of_int (si_quantity row))) (Fin (of_int (si_reservedQty row))) =
        Fin (of_int (si_availableQty row))"
    by blast
  from updateStock_row_bounds [OF assms(1)] assms(2,3) have
    "\<bar>si_quantity row\<bar> \<le> 9007199254740992" "\<bar>si_reservedQty row\<bar> \<le> 9007199254740992"
    "\<bar>si_quantity row - si_reservedQty row\<bar> \<le> 9007199254740992"
    by linarith+
  from jssub_of_int [OF this, of e] a show ?thesis by simp
qed

lemma bulkUpdateItem_audit:
  "auditLogs (snd (bulkUpdateItem e item acc)) = auditLogs (snd acc)"
  by (cases acc)
     (simp add: bulkUpdateItem_def stockItem_upsert_def Let_def split: option.splits prod.splits)

lemma bulk_loop_audit:
  "auditLogs (snd (foldl (\<lambda>acc item. bulkUpdateItem e item acc) acc items)) = auditLogs (snd acc)"
  by (induction items arbitrary: acc) (simp_all add: bulkUpdateItem_audit)

lemma bulkUpdateStock_audit_unchanged:
  "auditLogs (snd (bulkUpdateStock e event_body d)) = auditLogs d"
proof (cases event_body)
  case None
  then show ?thesis by (simp add: bulkUpdateStock_def)
next
  case (Some body)
  show ?thesis
  proof (cases "bulk_items body")
    case None
    with Some show ?thesis by (simp add: bulkUpdateStock_def)
  next
    case (Some items)
    obtain results d1 where
      f: "foldl (\<lambda>acc item. bulkUpdateItem e item acc) ([], d) items = (results, d1)"
      by (cases "foldl (\<lambda>acc item. bulkUpdateItem e item acc) ([], d) items")
    with bulk_loop_audit [of e "([], d)" items] have "auditLogs d1 = auditLogs d"
      by simp
    with f Some \<open>event_body = Some body\<close> show ?thesis
      by (simp add: bulkUpdateStock_def)
  qed
qed


section \<open>The purchase order workflow: proofs\<close>

lemmas receive_defs = receivePurchaseOrder_def receiveLine_def itemsOf_def stockItem_upsert_def
  truthy_def default_reservedQty_def Let_def

lemma itemsOf_purchaseOrders_update [simp]:
  "itemsOf orderId (d\<lparr>purchaseOrders := m\<rparr>) = itemsOf orderId d"
  by (simp add: itemsOf_def)

text \<open>A line that names a fully received item of the loaded order is skipped.\<close>

lemma receiveLine_skips_fully_received:
  assumes "namesFullyReceived items received"
  shows "receiveLine e items warehouseId n received d = Some d"
proof -
  from assms obtain item where
    f: "find (\<lambda>i. poi_id i = rl_itemId received) items = Some item"
    and r: "poi_quantity item \<le> poi_receivedQty item"
    by (auto simp: namesFullyReceived_def fullyReceived_def split: option.splits)
  from r have "min (rl_receivedQty received) (poi_quantity item - poi_receivedQty item) \<le> 0"
    by simp
  with f show ?thesis
    by (simp add: receiveLine_def Let_def)
qed

lemma receiveLines_skip_fully_received:
  assumes "list_all (namesFullyReceived items) lines"
  shows "receiveLines e items warehouseId n lines d = Some d"
  using assms
  by (induction lines arbitrary: n) (simp_all add: receiveLine_skips_fully_received)

text \<open>What one turn of the loop does with a line whose item it finds.\<close>

lemma receiveLine_step:
  assumes "find (\<lambda>i. poi_id i = rl_itemId received) items = Some item"
  shows "(let qty = min (rl_receivedQty received) (poi_quantity item - poi_receivedQty item) in
          if qty \<le> 0 then receiveLine e items warehouseId n received d = Some d
          else if stockWriteFails e (poi_productId item) warehouseId
            then receiveLine e items warehouseId n received d = None
          else
            (case receiveLine e items warehouseId n received d of
               None \<Rightarrow> False
             | Some d1 \<Rightarrow>
                 purchaseOrderItems d1 =
                   map (\<lambda>i. if poi_id i = poi_id item
                             then i\<lparr>poi_receivedQty := poi_receivedQty item + qty\<rparr> else i)
                       (purchaseOrderItems d) \<and>
                 (case stockItems d1 (poi_productId item, warehouseId) of
                    None \<Rightarrow> False
                  | Some row \<Rightarrow>
                      (case stockItems d (poi_productId item, warehouseId) of
                         None \<Rightarrow>
                           si_quantity row = qty \<and> si_availableQty row = qty \<and>
                           si_reservedQty row = default_reservedQty
                       | Some old \<Rightarrow>
                           si_quantity row = si_quantity old + qty \<and>
                           si_availableQty row = si_availableQty old + qty \<and>
                           si_reservedQty row = si_reservedQty old))))"
  using assms
  by (simp add: receiveLine_def stockItem_upsert_def Let_def split: option.splits)


text \<open>
  A request whose lines all name items that are fully received when the order is loaded
  leaves every purchase order item and the whole stock ledger as they were.
\<close>

lemma receive_fully_received_again:
  assumes "rb_items body = Some lines"
    and "list_all (namesFullyReceived (itemsOf orderId d0)) lines"
  shows "purchaseOrderItems (snd (receivePurchaseOrder e orderId (Some body) d0)) =
           purchaseOrderItems d0 \<and>
         stockItems (snd (receivePurchaseOrder e orderId (Some body) d0)) = stockItems d0"
proof -
  from assms have skip: "\<And>w. receiveLines e (itemsOf orderId d0) w 0 lines d0 = Some d0"
    by (simp add: receiveLines_skip_fully_received)
  from assms skip have
    "purchaseOrderItems (snd (receivePurchaseOrder e orderId (Some body) d0)) =
       purchaseOrderItems d0"
    by (simp add: receivePurchaseOrder_def Let_def split: option.splits)
  moreover from assms skip have
    "stockItems (snd (receivePurchaseOrder e orderId (Some body) d0)) = stockItems d0"
    by (simp add: receivePurchaseOrder_def Let_def split: option.splits)
  ultimately show ?thesis by simp
qed

text \<open>
  C2, evaluated where it fails. PO1 is ORDERED with the single line I1 of 10 units of P1,
  none of them received, and W1 holds 5 units of P1. A request that receives 10 units of
  I1 is answered as a success, leaves I1 fully received and raises the stock to 15. A
  request that receives 10 units of I1 in each of two lines is answered as a success as
  well: its second line names the item that its first line has fully received, and is
  applied all the same, because the loop reads the received quantity from the order as
  loaded before the transaction. I1 is stored with 10 units received and the stock of P1
  in W1 is 25, which is 20 more than before for 10 units ordered.
\<close>

theorem receive_same_item_twice:
  "purchaseOrderItems ex_db = [ex_po_item] \<and>
   poi_quantity ex_po_item = 10 \<and> poi_receivedQty ex_po_item = 0 \<and>
   stockItems ex_db (''P1'', ''W1'') = Some ex_stock \<and>
   si_quantity ex_stock = 5 \<and>
   fst (receivePurchaseOrder ex_env ''PO1''
      (Some \<lparr> rb_warehouseId = Some ''W1'',
              rb_items = Some [\<lparr> rl_itemId = ''I1'', rl_receivedQty = 10 \<rparr>] \<rparr>) ex_db) =
     Inr (ex_po\<lparr>po_status := RECEIVED, po_receivedAt := Some 1000\<rparr>) \<and>
   purchaseOrderItems (snd (receivePurchaseOrder ex_env ''PO1''
      (Some \<lparr> rb_warehouseId = Some ''W1'',
              rb_items = Some [\<lparr> rl_itemId = ''I1'', rl_receivedQty = 10 \<rparr>] \<rparr>) ex_db)) =
     [ex_po_item\<lparr>poi_receivedQty := 10\<rparr>] \<and>
   stockItems (snd (receivePurchaseOrder ex_env ''PO1''
      (Some \<lparr> rb_warehouseId = Some ''W1'',
              rb_items = Some [\<lparr> rl_itemId = ''I1'', rl_receivedQty = 10 \<rparr>] \<rparr>) ex_db))
      (''P1'', ''W1'') =
     Some (ex_stock\<lparr>si_quantity := 15, si_availableQty := 15\<rparr>) \<and>
   fst (receivePurchaseOrder ex_env ''PO1''
      (Some \<lparr> rb_warehouseId = Some ''W1'',
              rb_items = Some [\<lparr> rl_itemId = ''I1'', rl_receivedQty = 10 \<rparr>,
                               \<lparr> rl_itemId = ''I1'', rl_receivedQty = 10 \<rparr>] \<rparr>) ex_db) =
     Inr (ex_po\<lparr>po_status := RECEIVED, po_receivedAt := Some 1000\<rparr>) \<and>
   purchaseOrderItems (snd (receivePurchaseOrder ex_env ''PO1''
      (Some \<lparr> rb_warehouseId = Some ''W1'',
              rb_items = Some [\<lparr> rl_itemId = ''I1'', rl_receivedQty = 10 \<rparr>,
                               \<lparr> rl_itemId = ''I1'', rl_receivedQty = 10 \<rparr>] \<rparr>) ex_db)) =
     [ex_po_item\<lparr>poi_receivedQty := 10\<rparr>] \<and>
   stockItems (snd (receivePurchaseOrder ex_env ''PO1''
      (Some \<lparr> rb_warehouseId = Some ''W1'',
              rb_items = Some [\<lparr> rl_itemId = ''I1'', rl_receivedQty = 10 \<rparr>,
                               \<lparr> rl_itemId = ''I1'', rl_receivedQty = 10 \<rparr>] \<rparr>) ex_db))
      (''P1'', ''W1'') =
     Some (ex_stock\<lparr>si_quantity := 25, si_availableQty := 25\<rparr>)"
  by (simp add: receive_defs ex_defs)

text \<open>What a successful \<open>receivePurchaseOrder\<close> tells about the order it read and wrote.\<close>

lemma receivePurchaseOrder_Inr:
  assumes "receivePurchaseOrder e orderId (Some body) d = (Inr order', d')"
  shows "\<exists>order d1.
    purchaseOrders d orderId = Some order \<and>
    (po_status order = ORDERED \<or> po_status order = PARTIAL) \<and>
    d' = d1\<lparr>purchaseOrders := (purchaseOrders d1)(orderId \<mapsto> order')\<rparr> \<and>
    order' = order\<lparr> po_status :=
                 (if list_all (\<lambda>i. poi_receivedQty i \<ge> poi_quantity i) (itemsOf orderId d1)
                  then RECEIVED
                  else if list_ex (\<lambda>i. poi_receivedQty i > 0) (itemsOf orderId d1) then PARTIAL
                  else po_status order),
               po_receivedAt :=
                 (if list_all (\<lambda>i. poi_receivedQty i \<ge> poi_quantity i) (itemsOf orderId d1)
                  then Some (now e) else None) \<rparr>"
proof -
  from assms obtain warehouseId order where
    o: "purchaseOrders d orderId = Some order"
    and st: "po_status order = ORDERED \<or> po_status order = PARTIAL"
    and w: "rb_warehouseId body = Some warehouseId" "truthy (rb_warehouseId body)" "orderId \<noteq> []"
    by (simp add: receivePurchaseOrder_def split: if_splits option.splits)
  define lines where "lines =
    (case rb_items body of
       Some lines \<Rightarrow> lines
     | None \<Rightarrow> map (\<lambda>i. \<lparr> rl_itemId = poi_id i,
                           rl_receivedQty = poi_quantity i - poi_receivedQty i \<rparr>)
                   (itemsOf orderId d))"
  from assms o st w obtain d1 where
    "receiveLines e (itemsOf orderId d) warehouseId 0 lines d = Some d1"
    by (cases "receiveLines e (itemsOf orderId d) warehouseId 0 lines d")
       (simp_all add: receivePurchaseOrder_def Let_def lines_def)
  with assms o st w have
    "d' = d1\<lparr>purchaseOrders := (purchaseOrders d1)(orderId \<mapsto> order')\<rparr> \<and>
     order' = order\<lparr> po_status :=
                 (if list_all (\<lambda>i. poi_receivedQty i \<ge> poi_quantity i) (itemsOf orderId d1)
                  then RECEIVED
                  else if list_ex (\<lambda>i. poi_receivedQty i > 0) (itemsOf orderId d1) then PARTIAL
                  else po_status order),
               po_receivedAt :=
                 (if list_all (\<lambda>i. poi_receivedQty i \<ge> poi_quantity i) (itemsOf orderId d1)
                  then Some (now e) else None) \<rparr>"
    by (simp add: receivePurchaseOrder_def Let_def lines_def split del: if_split) auto
  with o st show ?thesis by blast
qed

text \<open>
  C3, as the handler has it. A successful \<open>receivePurchaseOrder\<close> found the order ORDERED or
  PARTIAL and stores the order it returns; afterwards the status is RECEIVED exactly when
  every item of the order is fully received, it is PARTIAL when not every item is fully
  received and some item has a received quantity above 0, and otherwise it is the status
  the order had; and \<open>receivedAt\<close> is set exactly when every item is fully received.
\<close>

theorem receive_status_recomputed:
  assumes "receivePurchaseOrder e orderId (Some body) d = (Inr order', d')"
  shows "\<exists>order. purchaseOrders d orderId = Some order \<and>
           (po_status order = ORDERED \<or> po_status order = PARTIAL) \<and>
           purchaseOrders d' orderId = Some order' \<and>
           (po_status order' = RECEIVED \<longleftrightarrow> list_all fullyReceived (itemsOf orderId d')) \<and>
           (\<not> list_all fullyReceived (itemsOf orderId d') \<and>
              list_ex (\<lambda>i. poi_receivedQty i > 0) (itemsOf orderId d') \<longrightarrow>
              po_status order' = PARTIAL) \<and>
           (\<not> list_all fullyReceived (itemsOf orderId d') \<and>
              \<not> list_ex (\<lambda>i. poi_receivedQty i > 0) (itemsOf orderId d') \<longrightarrow>
              po_status order' = po_status order) \<and>
           (po_receivedAt order' \<noteq> None \<longleftrightarrow> list_all fullyReceived (itemsOf orderId d'))"
proof -
  from receivePurchaseOrder_Inr [OF assms] obtain order d1 where
    o: "purchaseOrders d orderId = Some order"
    and st: "po_status order = ORDERED \<or> po_status order = PARTIAL"
    and d': "d' = d1\<lparr>purchaseOrders := (purchaseOrders d1)(orderId \<mapsto> order')\<rparr>"
    and o': "order' = order\<lparr> po_status :=
                 (if list_all (\<lambda>i. poi_receivedQty i \<ge> poi_quantity i) (itemsOf orderId d1)
                  then RECEIVED
                  else if list_ex (\<lambda>i. poi_receivedQty i > 0) (itemsOf orderId d1) then PARTIAL
                  else po_status order),
               po_receivedAt :=
                 (if list_all (\<lambda>i. poi_receivedQty i \<ge> poi_quantity i) (itemsOf orderId d1)
                  then Some (now e) else None) \<rparr>"
    by blast
  have fr: "list_all fullyReceived xs = list_all (\<lambda>i. poi_receivedQty i \<ge> poi_quantity i) xs"
    for xs by (simp add: fullyReceived_def [abs_def])
  have items: "itemsOf orderId d' = itemsOf orderId d1"
    by (simp add: d')
  have stored: "purchaseOrders d' orderId = Some order'"
    by (simp add: d')
  have s': "po_status order' =
              (if list_all fullyReceived (itemsOf orderId d') then RECEIVED
               else if list_ex (\<lambda>i. poi_receivedQty i > 0) (itemsOf orderId d') then PARTIAL
               else po_status order)"
    unfolding items fr by (subst o') simp
  have r': "po_receivedAt order' =
              (if list_all fullyReceived (itemsOf orderId d') then Some (now e) else None)"
    unfolding items fr by (subst o') simp
  from st s' r' have status:
    "(po_status order' = RECEIVED \<longleftrightarrow> list_all fullyReceived (itemsOf orderId d')) \<and>
     (\<not> list_all fullyReceived (itemsOf orderId d') \<and>
        list_ex (\<lambda>i. poi_receivedQty i > 0) (itemsOf orderId d') \<longrightarrow>
        po_status order' = PARTIAL) \<and>
     (\<not> list_all fullyReceived (itemsOf orderId d') \<and>
        \<not> list_ex (\<lambda>i. poi_receivedQty i > 0) (itemsOf orderId d') \<longrightarrow>
        po_status order' = po_status order) \<and>
     (po_receivedAt order' \<noteq> None \<longleftrightarrow> list_all fullyReceived (itemsOf orderId d'))"
    by auto
  from o st stored status show ?thesis by blast
qed

text \<open>
  PO1 is ORDERED with one line of 10; receiving 4 of it succeeds, stores the order as
  PARTIAL with no \<open>receivedAt\<close>, and leaves an item with a received quantity above 0.
\<close>

theorem receive_status_recomputed_witness:
  "receivePurchaseOrder ex_env ''PO1''
          (Some \<lparr> rb_warehouseId = Some ''W1'',
                  rb_items = Some [\<lparr> rl_itemId = ''I1'', rl_receivedQty = 4 \<rparr>] \<rparr>) ex_db =
     (Inr (ex_po\<lparr>po_status := PARTIAL\<rparr>),
      snd (receivePurchaseOrder ex_env ''PO1''
          (Some \<lparr> rb_warehouseId = Some ''W1'',
                  rb_items = Some [\<lparr> rl_itemId = ''I1'', rl_receivedQty = 4 \<rparr>] \<rparr>) ex_db)) \<and>
   purchaseOrders ex_db ''PO1'' = Some ex_po \<and>
   po_status ex_po = ORDERED \<and>
   purchaseOrders (snd (receivePurchaseOrder ex_env ''PO1''
          (Some \<lparr> rb_warehouseId = Some ''W1'',
                  rb_items = Some [\<lparr> rl_itemId = ''I1'', rl_receivedQty = 4 \<rparr>] \<rparr>) ex_db)) ''PO1'' =
     Some (ex_po\<lparr>po_status := PARTIAL\<rparr>) \<and>
   list_ex (\<lambda>i. poi_receivedQty i > 0)
     (itemsOf ''PO1'' (snd (receivePurchaseOrder ex_env ''PO1''
          (Some \<lparr> rb_warehouseId = Some ''W1'',
                  rb_items = Some [\<lparr> rl_itemId = ''I1'', rl_receivedQty = 4 \<rparr>] \<rparr>) ex_db))) \<and>
   po_receivedAt (ex_po\<lparr>po_status := PARTIAL\<rparr>) = None"
proof -
  have run: "receivePurchaseOrder ex_env ''PO1''
          (Some \<lparr> rb_warehouseId = Some ''W1'',
                  rb_items = Some [\<lparr> rl_itemId = ''I1'', rl_receivedQty = 4 \<rparr>] \<rparr>) ex_db =
     (Inr (ex_po\<lparr>po_status := PARTIAL\<rparr>),
      snd (receivePurchaseOrder ex_env ''PO1''
          (Some \<lparr> rb_warehouseId = Some ''W1'',
                  rb_items = Some [\<lparr> rl_itemId = ''I1'', rl_receivedQty = 4 \<rparr>] \<rparr>) ex_db))"
    by (simp add: receive_defs ex_defs)
  from receive_status_recomputed [OF run] show ?thesis
    by (simp add: receive_defs ex_defs fullyReceived_def)
qed

text \<open>
  The claim as stated fails on a partial receipt of every line. PO1 is ORDERED with the
  single line I1; after 4 of its 10 units are received the order is PARTIAL, although
  every item (not some but not all of them) has a received quantity above 0 and not
  every item is fully received, where the claim leaves the status ORDERED.
\<close>

theorem receive_status_counterexample:
  "fst (receivePurchaseOrder ex_env ''PO1''
          (Some \<lparr> rb_warehouseId = Some ''W1'',
                  rb_items = Some [\<lparr> rl_itemId = ''I1'', rl_receivedQty = 4 \<rparr>] \<rparr>) ex_db) =
     Inr (ex_po\<lparr>po_status := PARTIAL\<rparr>) \<and>
   po_status ex_po = ORDERED \<and>
   itemsOf ''PO1'' (snd (receivePurchaseOrder ex_env ''PO1''
          (Some \<lparr> rb_warehouseId = Some ''W1'',
                  rb_items = Some [\<lparr> rl_itemId = ''I1'', rl_receivedQty = 4 \<rparr>] \<rparr>) ex_db)) =
     [ex_po_item\<lparr>poi_receivedQty := 4\<rparr>] \<and>
   list_all (\<lambda>i. poi_receivedQty i > 0) [ex_po_item\<lparr>poi_receivedQty := 4\<rparr>] \<and>
   \<not> list_all fullyReceived [ex_po_item\<lparr>poi_receivedQty := 4\<rparr>]"
  by (simp add: receive_defs ex_defs fullyReceived_def)

text \<open>
  Further facts about receiving. If every stock row satisfies the invariant of a stock
  row before \<open>receivePurchaseOrder\<close>, every stock row satisfies it afterwards.
\<close>

lemma receiveLine_preserves_invariant:
  assumes "\<forall>k row. stockItems d k = Some row \<longrightarrow> stock_invariant row"
    and "receiveLine e items warehouseId n received d = Some d'"
  shows "\<forall>k row. stockItems d' k = Some row \<longrightarrow> stock_invariant row"
proof (cases "find (\<lambda>i. poi_id i = rl_itemId received) items")
  case None
  with assms show ?thesis by (simp add: receiveLine_def)
next
  case (Some item)
  define qty where
    "qty = min (rl_receivedQty received) (poi_quantity item - poi_receivedQty item)"
  show ?thesis
  proof (cases "qty \<le> 0")
    case True
    with assms Some show ?thesis by (simp add: receiveLine_def qty_def Let_def)
  next
    case False
    define newRow where
      "newRow = (case stockItems d (poi_productId item, warehouseId) of
                   Some x \<Rightarrow> x\<lparr> si_quantity := si_quantity x + qty,
                                 si_availableQty := si_availableQty x + qty \<rparr>
                 | None \<Rightarrow>
                     \<lparr> si_id = newId e n, si_productId = poi_productId item,
                       si_warehouseId = warehouseId, si_quantity = qty,
                       si_reservedQty = default_reservedQty, si_availableQty = qty,
                       si_lastCountAt = None \<rparr>)"
    from assms(2) Some False have
      st: "stockItems d' = (stockItems d)((poi_productId item, warehouseId) \<mapsto> newRow)"
      by (auto simp: receiveLine_def qty_def [symmetric] newRow_def Let_def stockItem_upsert_def
          split: if_splits)
    have new: "stock_invariant newRow"
    proof (cases "stockItems d (poi_productId item, warehouseId)")
      case None
      with False show ?thesis
        by (simp add: newRow_def stock_invariant_def default_reservedQty_def)
    next
      case (Some old)
      with assms(1) have "stock_invariant old" by blast
      with Some False show ?thesis
        by (simp add: newRow_def stock_invariant_def)
    qed
    from assms(1) new show ?thesis
      by (simp add: st)
  qed
qed

lemma receiveLines_preserve_invariant:
  assumes "\<forall>k row. stockItems d k = Some row \<longrightarrow> stock_invariant row"
    and "receiveLines e items warehouseId n lines d = Some d'"
  shows "\<forall>k row. stockItems d' k = Some row \<longrightarrow> stock_invariant row"
  using assms
proof (induction lines arbitrary: n d)
  case Nil
  then show ?case by simp
next
  case (Cons received rest)
  from Cons.prems(2) obtain d1 where
    s: "receiveLine e items warehouseId n received d = Some d1"
    and r: "receiveLines e items warehouseId (Suc n) rest d1 = Some d'"
    by (auto split: option.splits)
  from receiveLine_preserves_invariant [OF Cons.prems(1) s]
  have "\<forall>k row. stockItems d1 k = Some row \<longrightarrow> stock_invariant row" .
  from Cons.IH [OF this r] show ?case .
qed

lemma receivePurchaseOrder_preserves_invariant:
  assumes "\<forall>k row. stockItems d k = Some row \<longrightarrow> stock_invariant row"
  shows "\<forall>k row. stockItems (snd (receivePurchaseOrder e orderId event_body d)) k = Some row \<longrightarrow>
           stock_invariant row"
proof -
  have "\<forall>k row. stockItems d1 k = Some row \<longrightarrow> stock_invariant row"
    if "receiveLines e items warehouseId 0 lines d = Some d1" for items warehouseId lines d1
    using receiveLines_preserve_invariant [OF assms that] .
  with assms show ?thesis
    by (simp add: receivePurchaseOrder_def Let_def split: option.splits prod.splits)
qed


section \<open>Order creation and the sales order workflow: proofs\<close>

lemmas order_defs = updateOrder_def transitionRejected_def Let_def

lemmas create_defs = createOrder_def createPurchaseOrder_def truthy_def taxRateOf_def
  generateOrderNumber_def generatePurchaseOrderNumber_def
  default_order_status_def default_po_status_def default_receivedQty_def Let_def

text \<open>The table of the handler holds exactly the pairs the spec lists.\<close>

lemma validTransitions_table:
  "t \<in> set (validTransitions f) \<longleftrightarrow> (f, t) \<in> transitionTable"
  by (cases f; cases t; simp add: transitionTable_def)

text \<open>The three ways \<open>updateOrder\<close> ends for an order that exists.\<close>

lemma updateOrder_rejects:
  assumes "orderId \<noteq> []" and "orders d orderId = Some existing"
    and "ub_status body = Some s" and "s \<noteq> o_status existing"
    and "(o_status existing, s) \<notin> transitionTable"
  shows "updateOrder e orderId (Some body) d =
           (Inl (InvalidTransitionError (o_status existing) s), d)"
  using assms
  by (simp add: updateOrder_def transitionRejected_def validTransitions_table)

lemma updateOrder_items_unsupported:
  assumes "orderId \<noteq> []" and "orders d orderId = Some existing"
    and "\<not> transitionRejected (o_status existing) (ub_status body)"
    and "ub_items body \<noteq> None" and "o_status existing = PENDING"
  shows "updateOrder e orderId (Some body) d =
           (Inl (ValidationError ''Item updates not supported via this endpoint''), d)"
  using assms by (simp add: updateOrder_def)

lemma updateOrder_applies:
  assumes "orderId \<noteq> []" and "orders d orderId = Some existing"
    and "\<not> transitionRejected (o_status existing) (ub_status body)"
    and "ub_items body = None \<or> o_status existing \<noteq> PENDING"
    and "ub_status body = Some s"
  shows "updateOrder e orderId (Some body) d =
           (Inr (existing\<lparr> o_status := s,
                   o_shippedAt := (if s = SHIPPED then Some (now e) else o_shippedAt existing),
                   o_deliveredAt :=
                     (if s = DELIVERED then Some (now e) else o_deliveredAt existing) \<rparr>),
            d\<lparr>orders := (orders d)(orderId \<mapsto>
                 existing\<lparr> o_status := s,
                   o_shippedAt := (if s = SHIPPED then Some (now e) else o_shippedAt existing),
                   o_deliveredAt :=
                     (if s = DELIVERED then Some (now e) else o_deliveredAt existing) \<rparr>)\<rparr>)"
  using assms by (auto simp: updateOrder_def Let_def)

text \<open>
  C4, as the handler has it. For an update of an order that exists and that requests a
  status other than the current one: a pair outside the table is rejected as an invalid
  transition and the store is unchanged, whatever else the body holds; a pair in the
  table is applied, and the order stored with the requested status, unless the body
  gives an item list for a PENDING order, which is refused as a client error with the
  store unchanged.
\<close>

theorem updateOrder_transition_table:
  assumes "orderId \<noteq> []" and "orders d orderId = Some existing"
    and "ub_status body = Some s" and "s \<noteq> o_status existing"
  shows "((o_status existing, s) \<notin> transitionTable \<longrightarrow>
            updateOrder e orderId (Some body) d =
              (Inl (InvalidTransitionError (o_status existing) s), d)) \<and>
         ((o_status existing, s) \<in> transitionTable \<longrightarrow>
            (if ub_items body \<noteq> None \<and> o_status existing = PENDING
             then updateOrder e orderId (Some body) d =
                    (Inl (ValidationError ''Item updates not supported via this endpoint''), d)
             else (\<exists>order'.
                    updateOrder e orderId (Some body) d =
                      (Inr order', d\<lparr>orders := (orders d)(orderId \<mapsto> order')\<rparr>) \<and>
                    o_status order' = s)))"
proof (intro conjI impI)
  assume "(o_status existing, s) \<notin> transitionTable"
  with assms show "updateOrder e orderId (Some body) d =
              (Inl (InvalidTransitionError (o_status existing) s), d)"
    by (rule updateOrder_rejects)
next
  assume "(o_status existing, s) \<in> transitionTable"
  with assms have ok: "\<not> transitionRejected (o_status existing) (ub_status body)"
    by (simp add: transitionRejected_def validTransitions_table)
  show "if ub_items body \<noteq> None \<and> o_status existing = PENDING
        then updateOrder e orderId (Some body) d =
               (Inl (ValidationError ''Item updates not supported via this endpoint''), d)
        else (\<exists>order'.
               updateOrder e orderId (Some body) d =
                 (Inr order', d\<lparr>orders := (orders d)(orderId \<mapsto> order')\<rparr>) \<and>
               o_status order' = s)"
  proof (cases "ub_items body \<noteq> None \<and> o_status existing = PENDING")
    case True
    with assms ok show ?thesis
      by (simp add: updateOrder_items_unsupported)
  next
    case False
    then have "ub_items body = None \<or> o_status existing \<noteq> PENDING" by blast
    from updateOrder_applies [OF assms(1,2) ok this assms(3), of e] False
    show ?thesis by simp
  qed
qed

text \<open>
  O1 is PENDING: the update to CONFIRMED succeeds, the update to DELIVERED is rejected as
  an invalid transition.
\<close>

theorem updateOrder_transition_table_witness:
  "''O1'' \<noteq> [] \<and> orders ex_db ''O1'' = Some ex_order \<and> o_status ex_order = PENDING \<and>
   (PENDING, CONFIRMED) \<in> transitionTable \<and> (PENDING, DELIVERED) \<notin> transitionTable \<and>
   fst (updateOrder ex_env ''O1'' (Some \<lparr> ub_status = Some CONFIRMED, ub_items = None \<rparr>) ex_db) =
     Inr (ex_order\<lparr>o_status := CONFIRMED\<rparr>) \<and>
   updateOrder ex_env ''O1'' (Some \<lparr> ub_status = Some DELIVERED, ub_items = None \<rparr>) ex_db =
     (Inl (InvalidTransitionError PENDING DELIVERED), ex_db)"
proof -
  have h: "''O1'' \<noteq> []" "orders ex_db ''O1'' = Some ex_order"
    by (simp_all add: ex_db_def)
  have c: "ub_status \<lparr> ub_status = Some CONFIRMED, ub_items = None \<rparr> = Some CONFIRMED"
    "CONFIRMED \<noteq> o_status ex_order"
    by (simp_all add: ex_order_def)
  have dl: "ub_status \<lparr> ub_status = Some DELIVERED, ub_items = None \<rparr> = Some DELIVERED"
    "DELIVERED \<noteq> o_status ex_order"
    by (simp_all add: ex_order_def)
  from updateOrder_transition_table [OF h c, of ex_env]
       updateOrder_transition_table [OF h dl, of ex_env] h
  show ?thesis
    by (simp add: order_defs ex_defs transitionTable_def)
qed

text \<open>
  The claim as stated fails for an update that also gives items: PENDING to CONFIRMED is
  in the table, and yet the update of the PENDING order O1 to CONFIRMED with an item list
  is refused.
\<close>

theorem updateOrder_transition_counterexample:
  "orders ex_db ''O1'' = Some ex_order \<and> o_status ex_order = PENDING \<and>
   (PENDING, CONFIRMED) \<in> transitionTable \<and>
   updateOrder ex_env ''O1''
     (Some \<lparr> ub_status = Some CONFIRMED, ub_items = Some [ex_item] \<rparr>) ex_db =
     (Inl (ValidationError ''Item updates not supported via this endpoint''), ex_db)"
  by (simp add: order_defs ex_defs transitionTable_def)

text \<open>
  C10, as the handler has it. An update of an order that exists and that requests the
  current status again is never rejected as an invalid transition. It is applied, and
  the order stored, unless the body gives an item list for a PENDING order, which is
  refused as a client error; so it succeeds in the terminal states CANCELLED and
  REFUNDED. When the repeated status is SHIPPED the stored \<open>shippedAt\<close> is the time of the
  update, and when it is DELIVERED the stored \<open>deliveredAt\<close> is the time of the update.
\<close>

theorem updateOrder_same_status:
  assumes "orderId \<noteq> []" and "orders d orderId = Some existing"
    and "ub_status body = Some (o_status existing)"
  shows "(\<forall>f t. fst (updateOrder e orderId (Some body) d) \<noteq> Inl (InvalidTransitionError f t)) \<and>
         (if ub_items body \<noteq> None \<and> o_status existing = PENDING
          then updateOrder e orderId (Some body) d =
                 (Inl (ValidationError ''Item updates not supported via this endpoint''), d)
          else (\<exists>order'.
                 updateOrder e orderId (Some body) d =
                   (Inr order', d\<lparr>orders := (orders d)(orderId \<mapsto> order')\<rparr>) \<and>
                 o_status order' = o_status existing \<and>
                 (o_status existing = SHIPPED \<longrightarrow> o_shippedAt order' = Some (now e)) \<and>
                 (o_status existing = DELIVERED \<longrightarrow> o_deliveredAt order' = Some (now e)))) \<and>
         (o_status existing = CANCELLED \<or> o_status existing = REFUNDED \<longrightarrow>
            (\<exists>order'. fst (updateOrder e orderId (Some body) d) = Inr order'))"
proof -
  from assms have ok: "\<not> transitionRejected (o_status existing) (ub_status body)"
    by (simp add: transitionRejected_def)
  have main: "if ub_items body \<noteq> None \<and> o_status existing = PENDING
          then updateOrder e orderId (Some body) d =
                 (Inl (ValidationError ''Item updates not supported via this endpoint''), d)
          else (\<exists>order'.
                 updateOrder e orderId (Some body) d =
                   (Inr order', d\<lparr>orders := (orders d)(orderId \<mapsto> order')\<rparr>) \<and>
                 o_status order' = o_status existing \<and>
                 (o_status existing = SHIPPED \<longrightarrow> o_shippedAt order' = Some (now e)) \<and>
                 (o_status existing = DELIVERED \<longrightarrow> o_deliveredAt order' = Some (now e)))"
  proof (cases "ub_items body \<noteq> None \<and> o_status existing = PENDING")
    case True
    with assms ok show ?thesis
      by (simp add: updateOrder_items_unsupported)
  next
    case False
    then have "ub_items body = None \<or> o_status existing \<noteq> PENDING" by blast
    from updateOrder_applies [OF assms(1,2) ok this assms(3), of e] False
    show ?thesis by simp
  qed
  from main have a: "\<forall>f t. fst (updateOrder e orderId (Some body) d) \<noteq> Inl (InvalidTransitionError f t)"
    by (auto split: if_splits)
  from main have b: "o_status existing = CANCELLED \<or> o_status existing = REFUNDED \<longrightarrow>
            (\<exists>order'. fst (updateOrder e orderId (Some body) d) = Inr order')"
    by (auto split: if_splits)
  from a main b show ?thesis by blast
qed

text \<open>
  The claim as stated fails for a PENDING order: the update of O1 to its current status
  PENDING with an item list is refused.
\<close>

theorem updateOrder_same_status_counterexample:
  "orders ex_db ''O1'' = Some ex_order \<and> o_status ex_order = PENDING \<and>
   updateOrder ex_env ''O1''
     (Some \<lparr> ub_status = Some PENDING, ub_items = Some [ex_item] \<rparr>) ex_db =
     (Inl (ValidationError ''Item updates not supported via this endpoint''), ex_db)"
  by (simp add: order_defs ex_defs)

text \<open>
  O1 shipped at time 500 and updated to SHIPPED again at time 1000, with an item list in
  the body, is stored as shipped at 1000; O1 cancelled and updated to CANCELLED again
  succeeds.
\<close>

theorem updateOrder_same_status_witness:
  "''O1'' \<noteq> [] \<and>
   orders ex_db_shipped ''O1'' = Some (ex_order\<lparr>o_status := SHIPPED, o_shippedAt := Some 500\<rparr>) \<and>
   fst (updateOrder ex_env ''O1'' (Some \<lparr> ub_status = Some SHIPPED, ub_items = Some [ex_item] \<rparr>)
          ex_db_shipped) =
     Inr (ex_order\<lparr>o_status := SHIPPED, o_shippedAt := Some 1000\<rparr>) \<and>
   orders ex_db_cancelled ''O1'' = Some (ex_order\<lparr>o_status := CANCELLED\<rparr>) \<and>
   fst (updateOrder ex_env ''O1'' (Some \<lparr> ub_status = Some CANCELLED, ub_items = None \<rparr>)
          ex_db_cancelled) =
     Inr (ex_order\<lparr>o_status := CANCELLED\<rparr>)"
proof -
  have h: "''O1'' \<noteq> []"
    "orders ex_db_shipped ''O1'' = Some (ex_order\<lparr>o_status := SHIPPED, o_shippedAt := Some 500\<rparr>)"
    "ub_status \<lparr> ub_status = Some SHIPPED, ub_items = Some [ex_item] \<rparr> =
       Some (o_status (ex_order\<lparr>o_status := SHIPPED, o_shippedAt := Some 500\<rparr>))"
    by (simp_all add: ex_db_shipped_def ex_db_def)
  have k: "orders ex_db_cancelled ''O1'' = Some (ex_order\<lparr>o_status := CANCELLED\<rparr>)"
    "ub_status \<lparr> ub_status = Some CANCELLED, ub_items = None \<rparr> =
       Some (o_status (ex_order\<lparr>o_status := CANCELLED\<rparr>))"
    by (simp_all add: ex_db_cancelled_def ex_db_def)
  from updateOrder_same_status [OF h, of ex_env] updateOrder_same_status [OF h(1) k, of ex_env]
  show ?thesis
    by (simp add: order_defs ex_defs)
qed

text \<open>
  The loop of \<open>createOrder\<close> appends one priced item for each requested item and adds
  their line totals and tax amounts, one after the other, to the sums it carries.
\<close>

lemma orderLines_acc:
  "orderLines e d customer orderId items (s, t, acc) = Inr (s', t', acc') \<Longrightarrow>
   \<exists>new. acc' = acc @ new \<and>
         list_all2 (pricedFrom e d customer) items new \<and>
         s' = foldl (jsadd e) s (map (lineTotal e) new) \<and>
         t' = foldl (jsadd e) t (map oi_taxAmount new)"
proof (induction items arbitrary: s t acc)
  case Nil
  then show ?case by simp
next
  case (Cons item rest)
  from Cons.prems obtain productId product where
    p: "ii_productId item = Some productId" "products d productId = Some product"
    by (auto split: option.splits if_splits)
  define unitPrice where
    "unitPrice = (if ii_unitPrice item \<noteq> JUndefined then parseFloat e (ii_unitPrice item)
                  else p_unitPrice product)"
  define discount where "discount = orZero (parseFloat e (ii_discount item))"
  define quantity where "quantity = parseInt e (ii_quantity item)"
  define l where
    "l = \<lparr> oi_orderId = orderId, oi_productId = productId, oi_quantity = quantity,
           oi_unitPrice = unitPrice, oi_discount = discount,
           oi_taxAmount =
             jsmul e (jssub e (jsmul e quantity unitPrice) discount) (taxRateOf product customer),
           oi_totalPrice =
             jsadd e (jssub e (jsmul e quantity unitPrice) discount)
               (jsmul e (jssub e (jsmul e quantity unitPrice) discount)
                  (taxRateOf product customer)) \<rparr>"
  from Cons.prems p have rec:
    "orderLines e d customer orderId rest
       (jsadd e s (lineTotal e l), jsadd e t (oi_taxAmount l), acc @ [l]) = Inr (s', t', acc')"
    by (simp add: Let_def l_def unitPrice_def discount_def quantity_def lineTotal_def
        split: if_splits)
  from Cons.IH [OF rec] obtain new where
    n: "acc' = (acc @ [l]) @ new" "list_all2 (pricedFrom e d customer) rest new"
       "s' = foldl (jsadd e) (jsadd e s (lineTotal e l)) (map (lineTotal e) new)"
       "t' = foldl (jsadd e) (jsadd e t (oi_taxAmount l)) (map oi_taxAmount new)"
    by blast
  from p have "pricedFrom e d customer item l"
    by (simp add: pricedFrom_def l_def lineTotal_def taxRateOf_def unitPrice_def discount_def
        quantity_def)
  with n show ?case
    by (intro exI [of _ "l # new"]) simp
qed

text \<open>What a successful \<open>createOrder\<close> tells about the customer, the loop and the order.\<close>

lemma createOrder_Inr:
  assumes "createOrder e (Some body) d = (Inr (oid, order, lines), d')"
  shows "\<exists>customerId customer subtotal totalTax.
           ob_customerId body = Some customerId \<and>
           customers d customerId = Some customer \<and>
           orderLines e d customer (newId e 0)
             (case ob_items body of Some items \<Rightarrow> items | None \<Rightarrow> []) (Fin 0, Fin 0, []) =
             Inr (subtotal, totalTax, lines) \<and>
           oid = newId e 0 \<and>
           o_customerId order = customerId \<and>
           o_subtotal order = subtotal \<and>
           o_taxAmount order = totalTax \<and>
           o_discountAmount order = orZero (parseFloat e (ob_discountAmount body)) \<and>
           o_shippingAmount order = orZero (parseFloat e (ob_shippingAmount body)) \<and>
           o_totalAmount order =
             jsadd e
               (jsadd e (jssub e subtotal (orZero (parseFloat e (ob_discountAmount body))))
                  totalTax)
               (orZero (parseFloat e (ob_shippingAmount body))) \<and>
           d' = d\<lparr> orders := (orders d)(oid \<mapsto> order), orderItems := orderItems d @ lines \<rparr>"
proof -
  from assms obtain customerId customer where
    c: "ob_customerId body = Some customerId" "truthy (ob_customerId body)"
       "customers d customerId = Some customer"
    by (simp add: createOrder_def split: if_splits option.splits)
  from assms c obtain subtotal totalTax itemsData where
    l: "orderLines e d customer (newId e 0)
             (case ob_items body of Some items \<Rightarrow> items | None \<Rightarrow> []) (Fin 0, Fin 0, []) =
             Inr (subtotal, totalTax, itemsData)"
    by (cases "orderLines e d customer (newId e 0)
             (case ob_items body of Some items \<Rightarrow> items | None \<Rightarrow> []) (Fin 0, Fin 0, [])")
       (auto simp: createOrder_def Let_def)
  from assms c l show ?thesis
    by (auto simp: createOrder_def Let_def)
qed

text \<open>
  C5, as the handler has it. For every sales order that \<open>createOrder\<close> creates, each
  stored item is priced from the requested item at the same position: its quantity is
  what \<open>parseInt\<close> reads from the requested quantity; its unit price is what \<open>parseFloat\<close>
  reads from the requested one or, when none is given, the unit price of the product; its
  discount is what \<open>parseFloat\<close> reads from the requested one, or 0; its line total is
  the quantity times the unit price less the discount; its tax amount is the line total
  times 0.0825 when the product is taxable and the customer is not tax exempt, and times
  0 otherwise; its total price is the line total plus the tax amount. The subtotal of the
  order is the sum of the line totals, its tax amount is the sum of the tax amounts of
  the items, each sum taken from 0 in the order of the items, and its total amount is the
  subtotal less the discount amount, plus the tax amount, plus the shipping amount. Every
  product, difference and sum is the one of the runtime's numbers. The order and its
  items are stored.
\<close>

theorem createOrder_pricing:
  assumes "createOrder e (Some body) d = (Inr (oid, order, lines), d')"
  shows "\<exists>customer.
           ob_customerId body = Some (o_customerId order) \<and>
           customers d (o_customerId order) = Some customer \<and>
           list_all2 (pricedFrom e d customer)
             (case ob_items body of Some items \<Rightarrow> items | None \<Rightarrow> []) lines \<and>
           o_subtotal order = foldl (jsadd e) (Fin 0) (map (lineTotal e) lines) \<and>
           o_taxAmount order = foldl (jsadd e) (Fin 0) (map oi_taxAmount lines) \<and>
           o_discountAmount order = orZero (parseFloat e (ob_discountAmount body)) \<and>
           o_shippingAmount order = orZero (parseFloat e (ob_shippingAmount body)) \<and>
           o_totalAmount order =
             jsadd e
               (jsadd e (jssub e (o_subtotal order) (o_discountAmount order))
                  (o_taxAmount order))
               (o_shippingAmount order) \<and>
           orders d' oid = Some order \<and>
           orderItems d' = orderItems d @ lines"
proof -
  from createOrder_Inr [OF assms] obtain customerId customer subtotal totalTax where
    c: "ob_customerId body = Some customerId" "customers d customerId = Some customer"
    and l: "orderLines e d customer (newId e 0)
             (case ob_items body of Some items \<Rightarrow> items | None \<Rightarrow> []) (Fin 0, Fin 0, []) =
             Inr (subtotal, totalTax, lines)"
    and o: "o_customerId order = customerId" "o_subtotal order = subtotal"
           "o_taxAmount order = totalTax"
           "o_discountAmount order = orZero (parseFloat e (ob_discountAmount body))"
           "o_shippingAmount order = orZero (parseFloat e (ob_shippingAmount body))"
           "o_totalAmount order =
             jsadd e
               (jsadd e (jssub e subtotal (orZero (parseFloat e (ob_discountAmount body))))
                  totalTax)
               (orZero (parseFloat e (ob_shippingAmount body)))"
    and d': "d' = d\<lparr> orders := (orders d)(oid \<mapsto> order), orderItems := orderItems d @ lines \<rparr>"
    by blast
  from orderLines_acc [OF l] have
    s: "list_all2 (pricedFrom e d customer)
          (case ob_items body of Some items \<Rightarrow> items | None \<Rightarrow> []) lines"
       "subtotal = foldl (jsadd e) (Fin 0) (map (lineTotal e) lines)"
       "totalTax = foldl (jsadd e) (Fin 0) (map oi_taxAmount lines)"
    by auto
  have stored: "orders d' oid = Some order" "orderItems d' = orderItems d @ lines"
    by (simp_all add: d')
  from c o s stored show ?thesis
    by (intro exI [of _ customer]) simp
qed

text \<open>
  Customer C1 is not tax exempt and P2 is taxable at a unit price of 100: an order of two
  units of P2 has a line total of 200, a tax amount of 16.5 and a total price of 216.5,
  and the order has a subtotal of 200 and a total amount of 216.5.
\<close>

theorem createOrder_pricing_witness:
  "createOrder ex_env (Some ex_order_body) ex_db =
     (Inr (''new-'',
           \<lparr> o_orderNumber = ''SO-2611-ABC123'', o_customerId = ''C1'', o_status = PENDING,
             o_subtotal = Fin 200, o_taxAmount = Fin 16.5, o_discountAmount = Fin 0,
             o_shippingAmount = Fin 0, o_totalAmount = Fin 216.5, o_shippedAt = None,
             o_deliveredAt = None \<rparr>,
           [\<lparr> oi_orderId = ''new-'', oi_productId = ''P2'', oi_quantity = Fin 2,
              oi_unitPrice = Fin 100, oi_discount = Fin 0, oi_taxAmount = Fin 16.5,
              oi_totalPrice = Fin 216.5 \<rparr>]),
      snd (createOrder ex_env (Some ex_order_body) ex_db)) \<and>
   customers ex_db ''C1'' = Some \<lparr> c_taxExempt = False \<rparr> \<and>
   products ex_db ''P2'' = Some \<lparr> p_unitPrice = Fin 100, p_isTaxable = True \<rparr> \<and>
   lineTotal ex_env
     \<lparr> oi_orderId = ''new-'', oi_productId = ''P2'', oi_quantity = Fin 2,
       oi_unitPrice = Fin 100, oi_discount = Fin 0, oi_taxAmount = Fin 16.5,
       oi_totalPrice = Fin 216.5 \<rparr> = Fin 200 \<and>
   pricedFrom ex_env ex_db \<lparr> c_taxExempt = False \<rparr>
     \<lparr> ii_productId = Some ''P2'', ii_quantity = JNum (Fin 2), ii_unitPrice = JUndefined,
       ii_discount = JUndefined \<rparr>
     \<lparr> oi_orderId = ''new-'', oi_productId = ''P2'', oi_quantity = Fin 2,
       oi_unitPrice = Fin 100, oi_discount = Fin 0, oi_taxAmount = Fin 16.5,
       oi_totalPrice = Fin 216.5 \<rparr> \<and>
   orderItems (snd (createOrder ex_env (Some ex_order_body) ex_db)) =
     [\<lparr> oi_orderId = ''new-'', oi_productId = ''P2'', oi_quantity = Fin 2,
        oi_unitPrice = Fin 100, oi_discount = Fin 0, oi_taxAmount = Fin 16.5,
        oi_totalPrice = Fin 216.5 \<rparr>]"
proof -
  have run: "createOrder ex_env (Some ex_order_body) ex_db =
     (Inr (''new-'',
           \<lparr> o_orderNumber = ''SO-2611-ABC123'', o_customerId = ''C1'', o_status = PENDING,
             o_subtotal = Fin 200, o_taxAmount = Fin 16.5, o_discountAmount = Fin 0,
             o_shippingAmount = Fin 0, o_totalAmount = Fin 216.5, o_shippedAt = None,
             o_deliveredAt = None \<rparr>,
           [\<lparr> oi_orderId = ''new-'', oi_productId = ''P2'', oi_quantity = Fin 2,
              oi_unitPrice = Fin 100, oi_discount = Fin 0, oi_taxAmount = Fin 16.5,
              oi_totalPrice = Fin 216.5 \<rparr>]),
      snd (createOrder ex_env (Some ex_order_body) ex_db))"
    by (simp add: create_defs js_defs ex_defs)
  from createOrder_pricing [OF run] show ?thesis
    by (simp add: create_defs js_defs ex_defs lineTotal_def pricedFrom_def)
qed

text \<open>
  The claim as stated fails on a quantity that is not an integer. P1 is not taxable at a
  unit price of 5: an order of 2.5 units of P1 is created with an item of 2 units at a
  total price of 10 and with a subtotal and a total amount of 10, where 2.5 times 5 is
  12.5.
\<close>

theorem createOrder_pricing_counterexample:
  "products ex_db ''P1'' = Some \<lparr> p_unitPrice = Fin 5, p_isTaxable = False \<rparr> \<and>
   fst (createOrder ex_env
     (Some \<lparr> ob_customerId = Some ''C1'', ob_orderNumber = None,
             ob_items = Some [\<lparr> ii_productId = Some ''P1'', ii_quantity = JNum (Fin 2.5),
                                ii_unitPrice = JUndefined, ii_discount = JUndefined \<rparr>],
             ob_discountAmount = JUndefined, ob_shippingAmount = JUndefined \<rparr>) ex_db) =
     Inr (''new-'',
          \<lparr> o_orderNumber = ''SO-2611-ABC123'', o_customerId = ''C1'', o_status = PENDING,
            o_subtotal = Fin 10, o_taxAmount = Fin 0, o_discountAmount = Fin 0,
            o_shippingAmount = Fin 0, o_totalAmount = Fin 10, o_shippedAt = None,
            o_deliveredAt = None \<rparr>,
          [\<lparr> oi_orderId = ''new-'', oi_productId = ''P1'', oi_quantity = Fin 2,
             oi_unitPrice = Fin 5, oi_discount = Fin 0, oi_taxAmount = Fin 0,
             oi_totalPrice = Fin 10 \<rparr>]) \<and>
   (2.5 :: real) * 5 - 0 \<noteq> 10"
  by (simp add: create_defs js_defs ex_defs)

text \<open>The party a create request must name, and what an absent or empty item list does.\<close>

lemma purchaseOrder_needs_supplier:
  assumes "\<not> (\<exists>s. pb_supplierId body = Some s \<and> s \<noteq> [] \<and> s \<in> suppliers d)"
  shows "\<exists>err. createPurchaseOrder e (Some body) d = (Inl err, d)"
  using assms
  by (cases "pb_supplierId body") (auto simp: createPurchaseOrder_def truthy_def)

lemma purchaseOrder_without_items:
  assumes "pb_supplierId body = Some s" and "s \<noteq> []" and "s \<in> suppliers d"
    and "pb_items body = None \<or> pb_items body = Some []"
  shows "\<exists>order. fst (createPurchaseOrder e (Some body) d) = Inr (newId e 0, order) \<and>
           purchaseOrders (snd (createPurchaseOrder e (Some body) d)) (newId e 0) = Some order \<and>
           purchaseOrderItems (snd (createPurchaseOrder e (Some body) d)) = purchaseOrderItems d \<and>
           po_subtotal order = 0"
  using assms
  by (auto simp: createPurchaseOrder_def truthy_def Let_def)

lemma order_needs_customer:
  assumes "\<not> (\<exists>c. ob_customerId body = Some c \<and> c \<noteq> [] \<and> customers d c \<noteq> None)"
  shows "\<exists>err. createOrder e (Some body) d = (Inl err, d)"
  using assms
  by (cases "ob_customerId body") (auto simp: createOrder_def truthy_def split: option.splits)

lemma order_without_items:
  assumes "ob_customerId body = Some c" and "c \<noteq> []" and "customers d c \<noteq> None"
    and "ob_items body = None \<or> ob_items body = Some []"
  shows "\<exists>order. fst (createOrder e (Some body) d) = Inr (newId e 0, order, []) \<and>
           orders (snd (createOrder e (Some body) d)) (newId e 0) = Some order \<and>
           orderItems (snd (createOrder e (Some body) d)) = orderItems d \<and>
           o_subtotal order = Fin 0"
  using assms
  by (auto simp: createOrder_def truthy_def Let_def)

text \<open>
  C6, as the handlers have it. \<open>createPurchaseOrder\<close> fails, and leaves the store as it
  is, unless the body names a supplier that exists, and \<open>createOrder\<close> fails, and leaves
  the store as it is, unless the body names a customer that exists. With that party
  named, a request whose item list is absent or empty succeeds: the order is created and
  stored with a subtotal of 0, and no item is added.
\<close>

theorem create_needs_party_not_items:
  "(\<not> (\<exists>s. pb_supplierId pbody = Some s \<and> s \<noteq> [] \<and> s \<in> suppliers d) \<longrightarrow>
      (\<exists>err. createPurchaseOrder e (Some pbody) d = (Inl err, d))) \<and>
   ((\<exists>s. pb_supplierId pbody = Some s \<and> s \<noteq> [] \<and> s \<in> suppliers d) \<and>
    (pb_items pbody = None \<or> pb_items pbody = Some []) \<longrightarrow>
      (\<exists>order. fst (createPurchaseOrder e (Some pbody) d) = Inr (newId e 0, order) \<and>
           purchaseOrders (snd (createPurchaseOrder e (Some pbody) d)) (newId e 0) = Some order \<and>
           purchaseOrderItems (snd (createPurchaseOrder e (Some pbody) d)) =
             purchaseOrderItems d \<and>
           po_subtotal order = 0)) \<and>
   (\<not> (\<exists>c. ob_customerId obody = Some c \<and> c \<noteq> [] \<and> customers d c \<noteq> None) \<longrightarrow>
      (\<exists>err. createOrder e (Some obody) d = (Inl err, d))) \<and>
   ((\<exists>c. ob_customerId obody = Some c \<and> c \<noteq> [] \<and> customers d c \<noteq> None) \<and>
    (ob_items obody = None \<or> ob_items obody = Some []) \<longrightarrow>
      (\<exists>order. fst (createOrder e (Some obody) d) = Inr (newId e 0, order, []) \<and>
           orders (snd (createOrder e (Some obody) d)) (newId e 0) = Some order \<and>
           orderItems (snd (createOrder e (Some obody) d)) = orderItems d \<and>
           o_subtotal order = Fin 0))"
  using purchaseOrder_needs_supplier [of pbody d e] purchaseOrder_without_items [of pbody _ d e]
    order_needs_customer [of obody d e] order_without_items [of obody _ d e]
  by blast

text \<open>
  The claim as stated fails: a purchase order for S1 without an item list, and a sales
  order for C1 with an empty item list, are created and stored.
\<close>

theorem create_without_items_counterexample:
  "pb_items ex_po_body_no_items = None \<and>
   fst (createPurchaseOrder ex_env (Some ex_po_body_no_items) ex_db) =
     Inr (''new-'',
          \<lparr> po_orderNumber = ''PO-2611-ABC123'', po_supplierId = ''S1'', po_status = DRAFT,
            po_subtotal = 0, po_taxAmount = 0, po_shippingAmount = 0, po_totalAmount = 0,
            po_receivedAt = None \<rparr>) \<and>
   purchaseOrders ex_db ''new-'' = None \<and>
   purchaseOrders (snd (createPurchaseOrder ex_env (Some ex_po_body_no_items) ex_db)) ''new-'' =
     Some \<lparr> po_orderNumber = ''PO-2611-ABC123'', po_supplierId = ''S1'', po_status = DRAFT,
            po_subtotal = 0, po_taxAmount = 0, po_shippingAmount = 0, po_totalAmount = 0,
            po_receivedAt = None \<rparr> \<and>
   ob_items ex_order_body_no_items = Some [] \<and>
   fst (createOrder ex_env (Some ex_order_body_no_items) ex_db) =
     Inr (''new-'',
          \<lparr> o_orderNumber = ''SO-2611-ABC123'', o_customerId = ''C1'', o_status = PENDING,
            o_subtotal = Fin 0, o_taxAmount = Fin 0, o_discountAmount = Fin 0,
            o_shippingAmount = Fin 0, o_totalAmount = Fin 0, o_shippedAt = None,
            o_deliveredAt = None \<rparr>, []) \<and>
   orders ex_db ''new-'' = None \<and>
   orders (snd (createOrder ex_env (Some ex_order_body_no_items) ex_db)) ''new-'' =
     Some \<lparr> o_orderNumber = ''SO-2611-ABC123'', o_customerId = ''C1'', o_status = PENDING,
            o_subtotal = Fin 0, o_taxAmount = Fin 0, o_discountAmount = Fin 0,
            o_shippingAmount = Fin 0, o_totalAmount = Fin 0, o_shippedAt = None,
            o_deliveredAt = None \<rparr>"
  by (simp add: create_defs js_defs ex_defs)

text \<open>
  The two requests without items succeed on the first store; the same requests naming
  the unknown supplier S9, and no customer, fail and leave the store as it is.
\<close>

theorem create_needs_party_not_items_witness:
  "pb_supplierId ex_po_body_no_items = Some ''S1'' \<and> ''S1'' \<in> suppliers ex_db \<and>
   pb_items ex_po_body_no_items = None \<and>
   ob_customerId ex_order_body_no_items = Some ''C1'' \<and>
   customers ex_db ''C1'' = Some \<lparr> c_taxExempt = False \<rparr> \<and>
   ob_items ex_order_body_no_items = Some [] \<and>
   (\<exists>order. fst (createPurchaseOrder ex_env (Some ex_po_body_no_items) ex_db) =
              Inr (''new-'', order) \<and> po_subtotal order = 0) \<and>
   (\<exists>order. fst (createOrder ex_env (Some ex_order_body_no_items) ex_db) =
              Inr (''new-'', order, []) \<and> o_subtotal order = Fin 0) \<and>
   (\<exists>err. createPurchaseOrder ex_env
             (Some (ex_po_body_no_items\<lparr>pb_supplierId := Some ''S9''\<rparr>)) ex_db = (Inl err, ex_db)) \<and>
   (\<exists>err. createOrder ex_env
             (Some (ex_order_body_no_items\<lparr>ob_customerId := None\<rparr>)) ex_db = (Inl err, ex_db))"
  using create_needs_party_not_items
          [of ex_po_body_no_items ex_db ex_env ex_order_body_no_items]
        create_needs_party_not_items
          [of "ex_po_body_no_items\<lparr>pb_supplierId := Some ''S9''\<rparr>" ex_db ex_env
              "ex_order_body_no_items\<lparr>ob_customerId := None\<rparr>"]
  by (simp add: create_defs js_defs ex_defs)

end
